theory Spec2Isabelle
  imports Main "HOL-Library.Word"
begin

unbundle bit_operations_syntax

section \<open>Data model of presenter.c\<close>

text \<open>
  The presenter of datoviz ties a renderer (canvases, swapchains, recorders) to a client
  (windows, event loop) and an optional GUI. Only \<^verbatim>\<open>presenter.c\<close> is available, so
  the structures it reads and writes are records holding exactly the fields that file
  touches. A function of another module that presenter.c calls for its effect is a
  \<^emph>\<open>call\<close> appended to a trace, in program order, with the arguments the claims speak of.
  Where presenter.c branches on what such a function returns or leaves behind, or
  stores it, that result comes from the environment record \<open>env\<close>: an arbitrary function
  standing for the absent module. The presenter's own list of callbacks, list of
  surfaces and map of GUI windows are state (a list appended to at its end, a map
  updated at a key), and their updates are calls of the trace as well.

  Pointers that presenter.c only checks with \<^verbatim>\<open>ANN\<close> and that the constructor
  \<^verbatim>\<open>dvz_presenter\<close> sets once (\<^verbatim>\<open>prt\<close>, \<^verbatim>\<open>prt->client\<close>, \<^verbatim>\<open>prt->rd\<close>,
  \<^verbatim>\<open>rd->gpu\<close>, \<^verbatim>\<open>gpu->host\<close>, \<^verbatim>\<open>rd->ctx\<close>, \<^verbatim>\<open>prt->callbacks\<close>,
  \<^verbatim>\<open>prt->surfaces\<close>, \<^verbatim>\<open>prt->maps.guis\<close>) are values of the model and cannot be null.
  Objects looked up by id (window, canvas, recorder, GUI window) are options, and a failed
  \<^verbatim>\<open>ANN\<close>/\<^verbatim>\<open>ASSERT\<close> or a null dereference is the \<open>Inl\<close> branch of the result.
\<close>

type_synonym DvzId = "64 word"
type_synonym uint32 = "32 word"

text \<open>
  \<^verbatim>\<open>DvzObjectStatus\<close>: the enum's declaration is not among the sources. presenter.c tells
  \<^verbatim>\<open>INVALID\<close> and \<^verbatim>\<open>NEED_RECREATE\<close> from every other value; \<open>DVZ_OBJECT_STATUS_OTHER n\<close>
  stands for the other values.
\<close>

datatype DvzObjectStatus =
    DVZ_OBJECT_STATUS_INVALID
  | DVZ_OBJECT_STATUS_NEED_RECREATE
  | DVZ_OBJECT_STATUS_OTHER nat

datatype DvzRequestAction =
    DVZ_REQUEST_ACTION_CREATE
  | DVZ_REQUEST_ACTION_DELETE
  | DVZ_REQUEST_ACTION_OTHER nat

datatype DvzRequestObject =
    DVZ_REQUEST_OBJECT_CANVAS
  | DVZ_REQUEST_OBJECT_OTHER nat

text \<open>
  \<^verbatim>\<open>DvzRequest\<close>: \<open>req_flags\<close> is the C \<^verbatim>\<open>int flags\<close>; \<open>screen_width\<close> and
  \<open>screen_height\<close> are \<^verbatim>\<open>req.content.canvas.screen_width/height\<close>.
\<close>

record DvzRequest =
  req_action :: DvzRequestAction
  req_type :: DvzRequestObject
  req_id :: DvzId
  req_flags :: "32 word"
  screen_width :: uint32
  screen_height :: uint32

type_synonym DvzBatch = "DvzRequest list"

record DvzWindow =
  win_width :: uint32
  win_height :: uint32
  framebuffer_width :: uint32
  framebuffer_height :: uint32

record DvzSwapchain =
  obj_status :: DvzObjectStatus
  img_idx :: uint32
  img_count :: uint32

text \<open>
  \<^verbatim>\<open>DvzRecorder\<close>: \<open>rec_count\<close> is \<^verbatim>\<open>recorder->count\<close>, the number of cached commands.
  \<open>rec_dirty\<close> is the recorder's "per-image dirty bit vector": \<open>rec_dirty r i\<close> says whether
  the command buffer of swapchain image \<open>i\<close> is stale.
\<close>

record DvzRecorder =
  rec_count :: uint32
  rec_dirty :: "uint32 \<Rightarrow> bool"

text \<open>
  \<^verbatim>\<open>DvzCanvas\<close>: \<open>cmds_count\<close> is \<^verbatim>\<open>canvas->cmds.count\<close>, \<open>swapchain\<close> is
  \<^verbatim>\<open>canvas->render.swapchain\<close>, \<open>frame_time_idx\<close> is \<^verbatim>\<open>canvas->render.frame_time_idx\<close>.
  \<^verbatim>\<open>canvas->scale\<close> is a float that presenter.c only writes and logs; it is left out.
\<close>

record DvzCanvas =
  cv_width :: uint32
  cv_height :: uint32
  cv_recorder :: "DvzRecorder option"
  cur_frame :: uint32
  cmds_count :: uint32
  swapchain :: DvzSwapchain
  frame_time_idx :: uint32

text \<open>\<^verbatim>\<open>DvzGuiWindow\<close>: \<open>gw_obj_id\<close> is \<^verbatim>\<open>gui_window->obj.id\<close>.\<close>

record DvzGuiWindow =
  gw_obj_id :: DvzId

text \<open>
  Function pointers and opaque user data. The two built-in callbacks and the two addresses
  \<^verbatim>\<open>_create_canvas\<close> passes with them are named; any other pointer is a number.
\<close>

datatype DvzGuiCallback =
    gui_callback_fps
  | gui_callback_monitoring
  | user_callback nat

datatype user_data_ptr =
    ptr_prt_fps
  | ptr_ctx_datalloc
  | ptr_user nat

record DvzGuiCallbackPayload =
  pl_window_id :: DvzId
  pl_callback :: DvzGuiCallback
  pl_user_data :: user_data_ptr

text \<open>
  The presenter together with what it reaches through \<^verbatim>\<open>prt->client\<close> (the map of
  windows) and \<^verbatim>\<open>prt->rd\<close> (the canvases of the renderer and
  \<^verbatim>\<open>rd->ctx->res.img_count\<close>). \<open>prt_gui\<close> says whether \<^verbatim>\<open>prt->gui\<close> is non-null.
  \<open>surfaces\<close> holds, for every tracked pointer \<^verbatim>\<open>&canvas->surface\<close>, the id of that canvas.
\<close>

record DvzPresenter =
  prt_gui :: bool
  guis :: "DvzId \<rightharpoonup> DvzGuiWindow"
  callbacks :: "DvzGuiCallbackPayload list"
  surfaces :: "DvzId list"
  windows :: "DvzId \<rightharpoonup> DvzWindow"
  canvases :: "DvzId \<rightharpoonup> DvzCanvas"
  res_img_count :: uint32

subsection \<open>Calls into the other modules\<close>

datatype DvzClientEvent =
    DVZ_CLIENT_EVENT_WINDOW_RESIZE DvzId uint32 uint32 uint32 uint32
    \<comment> \<open>window id, framebuffer width, framebuffer height, screen width, screen height\<close>
  | DVZ_CLIENT_EVENT_REQUESTS DvzBatch

datatype fences_ref = fences_render_finished | fences_flight

datatype semaphores_ref = sem_img_available | sem_render_finished

datatype commands_ref = canvas_cmds | gui_window_cmds

text \<open>
  One constructor per function of another module that presenter.c calls for its effect.
  The first argument, where there is one, is the id of the canvas (or window, or GUI
  window) the call is made on.
\<close>

datatype call =
    GpuWait
  | FencesWait DvzId fences_ref uint32
  | SwapchainAcquire DvzId semaphores_ref uint32
  | WindowPollSize DvzId
  | CanvasRecreate DvzId
  | SemaphoresRecreate DvzId semaphores_ref
  | GuiWindowResize DvzId uint32 uint32
  | ClientEvent DvzClientEvent
  | RecorderSetDirty DvzId
  | CmdReset DvzId uint32
  | BlankCommands DvzId uint32
  | RecorderSet DvzId uint32
  | Time DvzId uint32
  | FencesCopy DvzId fences_ref uint32 fences_ref uint32
  | SubmitReset DvzId
  | SubmitCommands DvzId commands_ref
  | GuiWindowBegin DvzId uint32
  | GuiCallbackCall DvzGuiCallback DvzId user_data_ptr
  | GuiWindowEnd DvzId uint32
  | SubmitWaitSemaphores DvzId semaphores_ref uint32
  | SubmitSignalSemaphores DvzId semaphores_ref uint32
  | SubmitSend DvzId uint32 fences_ref uint32
  | SwapchainPresent DvzId semaphores_ref uint32
  | TransfersFrame uint32
  | CreateClientWindow DvzId uint32 uint32
  | WindowInput DvzId
  | WindowSurface DvzId
  | CanvasCreate DvzId
  | ListAppendSurface DvzId
  | RecorderNew DvzId
  | WindowFullscreen DvzId bool
  | GuiWindowNew DvzId
  | MapAddGui DvzId
  | ListAppendCallback DvzGuiCallbackPayload
  | CanvasDestroy DvzId
  | RecorderDestroy DvzId
  | ListRemoveSurface DvzId
  | SurfaceDestroy DvzId
  | GuiWindowDestroy DvzId
  | WindowDestroy DvzId
  | RendererRequest DvzRequest
  | BatchDestroy
  | BatchPrint
  | BatchYaml string

datatype fatal = NullPointer | AssertionFailed | DivisionByZero

text \<open>
  The environment: the constants of headers that are not among the sources, and the
  functions of other modules whose results presenter.c uses.
  \<^item> \<open>swapchain_acquire sc cur\<close>: the swapchain after \<^verbatim>\<open>dvz_swapchain_acquire\<close> (its
    status and image index);
  \<^item> \<open>window_poll_size w\<close>: the window after \<^verbatim>\<open>dvz_window_poll_size\<close>;
  \<^item> \<open>canvas_recreate c\<close>, \<open>canvas_create c\<close>: the canvas after \<^verbatim>\<open>dvz_canvas_recreate\<close>,
    \<^verbatim>\<open>dvz_canvas_create\<close>;
  \<^item> \<open>renderer_request cs req\<close>: the renderer's canvases after \<^verbatim>\<open>dvz_renderer_request\<close>;
  \<^item> \<open>client_window id w h\<close>: the window \<^verbatim>\<open>create_client_window\<close> returns;
  \<^item> \<open>new_recorder\<close>: the recorder \<^verbatim>\<open>dvz_recorder(0)\<close> returns;
  \<^item> \<open>obj_is_created\<close>: \<^verbatim>\<open>dvz_obj_is_created\<close>;
  \<^item> \<open>getenv\<close>: the process environment.
\<close>

record env =
  DVZ_MAX_FRAMES_IN_FLIGHT :: uint32
  DVZ_MAX_TIMESTAMPS :: uint32
  DVZ_CANVAS_FLAGS_IMGUI :: "32 word"
  DVZ_CANVAS_FLAGS_FPS :: "32 word"
  DVZ_CANVAS_FLAGS_MONITOR :: "32 word"
  DVZ_CANVAS_FLAGS_FULLSCREEN :: "32 word"
  swapchain_acquire :: "DvzSwapchain \<Rightarrow> uint32 \<Rightarrow> DvzSwapchain"
  window_poll_size :: "DvzWindow \<Rightarrow> DvzWindow"
  canvas_recreate :: "DvzCanvas \<Rightarrow> DvzCanvas"
  canvas_create :: "DvzCanvas \<Rightarrow> DvzCanvas"
  renderer_request :: "(DvzId \<rightharpoonup> DvzCanvas) \<Rightarrow> DvzRequest \<Rightarrow> (DvzId \<rightharpoonup> DvzCanvas)"
  client_window :: "DvzId \<Rightarrow> uint32 \<Rightarrow> uint32 \<Rightarrow> DvzWindow"
  new_recorder :: DvzRecorder
  obj_is_created :: "DvzObjectStatus \<Rightarrow> bool"
  getenv :: "string \<Rightarrow> string option"

type_synonym 'a result = "fatal + ('a \<times> call list)"

section \<open>The frame driver\<close>

text \<open>
  Modelled from the spec: the dirty bits of the recorder (recorder.c, absent). The spec's
  recorder holds "a per-image dirty bit vector"; a structural change or a resize makes
  that "every image's dirty bit is set" (\<^verbatim>\<open>dvz_recorder_set_dirty\<close>); the frame driver
  re-records an image "if the recorder's dirty bit for the acquired image index is set"
  (\<^verbatim>\<open>dvz_recorder_is_dirty\<close>); and "a bit is cleared only immediately after that image's
  command buffer has been refilled" (\<^verbatim>\<open>dvz_recorder_set\<close>, the refill).
\<close>

definition dvz_recorder_set_dirty :: "DvzRecorder \<Rightarrow> DvzRecorder" where
  "dvz_recorder_set_dirty recorder = recorder\<lparr>rec_dirty := (\<lambda>i. True)\<rparr>"

definition dvz_recorder_is_dirty :: "DvzRecorder \<Rightarrow> uint32 \<Rightarrow> bool" where
  "dvz_recorder_is_dirty recorder img = rec_dirty recorder img"

definition dvz_recorder_set :: "DvzRecorder \<Rightarrow> uint32 \<Rightarrow> DvzRecorder" where
  "dvz_recorder_set recorder img = recorder\<lparr>rec_dirty := (rec_dirty recorder)(img := False)\<rparr>"

text \<open>
  \<^verbatim>\<open>_record_command\<close> (presenter.c 257-279): refill the command buffer of image
  \<open>img\<close>, with the recorder's cached commands if there are any and with blank commands
  otherwise. \<^verbatim>\<open>ANN(canvas->recorder)\<close> is the \<open>None\<close> branch. Both branches end with
  \<^verbatim>\<open>dvz_recorder_set\<close> on \<^verbatim>\<open>canvas->recorder\<close>; the canvas is returned with its recorder
  as that call leaves it.
\<close>

definition record_command ::
  "DvzId \<Rightarrow> DvzCanvas \<Rightarrow> uint32 \<Rightarrow> fatal + (DvzCanvas \<times> call list)" where
  "record_command cid canvas img =
     (case cv_recorder canvas of
        None \<Rightarrow> Inl NullPointer
      | Some recorder \<Rightarrow>
          if rec_count recorder > 0
          then Inr (canvas\<lparr>cv_recorder := Some (dvz_recorder_set recorder img)\<rparr>,
                    [CmdReset cid img, RecorderSet cid img])
          else Inr (canvas\<lparr>cv_recorder := Some (dvz_recorder_set recorder img)\<rparr>,
                    [CmdReset cid img, BlankCommands cid img, RecorderSet cid img]))"

text \<open>
  The loop \<^verbatim>\<open>for (uint32_t i = 0; i < cmds->count; i++) _record_command(rd, canvas, i)\<close>
  (presenter.c 611-614), over the indices it visits.
\<close>

fun record_loop ::
  "DvzId \<Rightarrow> DvzCanvas \<Rightarrow> uint32 list \<Rightarrow> fatal + (DvzCanvas \<times> call list)" where
  "record_loop cid canvas [] = Inr (canvas, [])"
| "record_loop cid canvas (i # rest) =
     (case record_command cid canvas i of
        Inl e \<Rightarrow> Inl e
      | Inr (canvas', tr) \<Rightarrow>
          (case record_loop cid canvas' rest of
             Inl e \<Rightarrow> Inl e
           | Inr (canvas'', tr') \<Rightarrow> Inr (canvas'', tr @ tr')))"

definition cmds_indices :: "DvzCanvas \<Rightarrow> uint32 list" where
  "cmds_indices canvas = map word_of_nat [0 ..< unat (cmds_count canvas)]"

text \<open>
  \<^verbatim>\<open>_gui_callback\<close> (presenter.c 381-415). With a null GUI window it returns at once.
  Otherwise it opens the GUI recording for the image, calls every payload of
  \<^verbatim>\<open>prt->callbacks\<close> whose \<open>pl_window_id\<close> equals \<^verbatim>\<open>gui_window->obj.id\<close>, in list
  order, closes the recording and adds the GUI command buffer to the submit.
  The list's length is taken to fit the \<^verbatim>\<open>uint32_t\<close> loop counter.
\<close>

definition callback_calls :: "DvzGuiWindow \<Rightarrow> DvzGuiCallbackPayload list \<Rightarrow> call list" where
  "callback_calls gui_window payloads =
     concat (map (\<lambda>payload.
        if pl_window_id payload = gw_obj_id gui_window
        then [GuiCallbackCall (pl_callback payload) (gw_obj_id gui_window) (pl_user_data payload)]
        else []) payloads)"

definition gui_callback :: "DvzPresenter \<Rightarrow> DvzId \<Rightarrow> DvzGuiWindow option \<Rightarrow> uint32 \<Rightarrow> call list" where
  "gui_callback prt cid gw img =
     (case gw of
        None \<Rightarrow> []
      | Some gui_window \<Rightarrow>
          [GuiWindowBegin (gw_obj_id gui_window) img]
          @ callback_calls gui_window (callbacks prt)
          @ [GuiWindowEnd (gw_obj_id gui_window) img, SubmitCommands cid gui_window_cmds])"

text \<open>
  Modelled from the spec: \<^verbatim>\<open>dvz_canvas_recreate\<close> (canvas.c, absent) "rebuilds the swapchain
  and its framebuffers, preserving identity but replacing backing resources", and the
  source's comment says that the new framebuffer size is stored in the canvas. Of the
  environment's answer the model keeps the fields presenter.c reads afterwards: the
  size, the swapchain and the number of command buffers. The recorder, the frame slot
  and the timestamp index of the canvas stay as they are.
\<close>

definition dvz_canvas_recreate :: "env \<Rightarrow> DvzCanvas \<Rightarrow> DvzCanvas" where
  "dvz_canvas_recreate E canvas =
     (let c' = canvas_recreate E canvas
      in canvas\<lparr>cv_width := cv_width c', cv_height := cv_height c',
                swapchain := swapchain c', cmds_count := cmds_count c'\<rparr>)"

text \<open>
  The branch \<^verbatim>\<open>NEED_RECREATE\<close> of \<^verbatim>\<open>dvz_presenter_frame\<close> (presenter.c 567-616),
  entered with the canvas as it is after the acquisition and with \<open>recorder\<close>, the
  recorder of that canvas read at line 518. It returns the polled window, the canvas as
  the branch leaves it (recreated, with the recorder set dirty and then every image
  recorded) and the calls made.
\<close>

definition frame_recreate ::
  "env \<Rightarrow> DvzGuiWindow option \<Rightarrow> DvzId \<Rightarrow> DvzWindow \<Rightarrow> DvzCanvas \<Rightarrow> DvzRecorder
    \<Rightarrow> fatal + (DvzWindow \<times> DvzCanvas \<times> call list)" where
  "frame_recreate E gui_window window_id window canvas recorder =
     (let window' = window_poll_size E window;
          canvas' = dvz_canvas_recreate E canvas;
          canvas_dirty = canvas'\<lparr>cv_recorder := Some (dvz_recorder_set_dirty recorder)\<rparr>;
          tr = [GpuWait, WindowPollSize window_id, CanvasRecreate window_id,
                SemaphoresRecreate window_id sem_img_available,
                SemaphoresRecreate window_id sem_render_finished]
               @ (case gui_window of
                    None \<Rightarrow> []
                  | Some g \<Rightarrow> [GuiWindowResize (gw_obj_id g) (cv_width canvas') (cv_height canvas')])
               @ [ClientEvent (DVZ_CLIENT_EVENT_WINDOW_RESIZE window_id
                     (cv_width canvas') (cv_height canvas')
                     (win_width window') (win_height window')),
                  RecorderSetDirty window_id]
      in case record_loop window_id canvas_dirty (cmds_indices canvas_dirty) of
           Inl e \<Rightarrow> Inl e
         | Inr (canvas'', tr') \<Rightarrow> Inr (window', canvas'', tr @ tr'))"

text \<open>
  The last branch of \<^verbatim>\<open>dvz_presenter_frame\<close> (presenter.c 619-662): timestamp, fence
  copy, refill of the acquired image's command buffer if the recorder says it is dirty,
  submission of the canvas commands and of the GUI commands, presentation, and the
  advance of the frame slot. \<^verbatim>\<open>x % 0\<close> is undefined in C and is the \<open>DivisionByZero\<close>
  branch. It returns the canvas and the calls made.
\<close>

definition frame_submit ::
  "env \<Rightarrow> DvzPresenter \<Rightarrow> DvzId \<Rightarrow> DvzCanvas \<Rightarrow> DvzRecorder
    \<Rightarrow> fatal + (DvzCanvas \<times> call list)" where
  "frame_submit E prt window_id canvas recorder =
     (if DVZ_MAX_TIMESTAMPS E = 0 then Inl DivisionByZero
      else
        let fidx = frame_time_idx canvas mod DVZ_MAX_TIMESTAMPS E;
            canvas1 = canvas\<lparr>frame_time_idx := frame_time_idx canvas + 1\<rparr>;
            img = img_idx (swapchain canvas1);
            cur = cur_frame canvas1;
            gui_window = guis prt window_id
        in if \<not> fidx < DVZ_MAX_TIMESTAMPS E then Inl AssertionFailed
           else
             case (if dvz_recorder_is_dirty recorder img
                   then record_command window_id canvas1 img else Inr (canvas1, [])) of
               Inl e \<Rightarrow> Inl e
             | Inr (canvas2, rec_tr) \<Rightarrow>
                 Inr (canvas2\<lparr>cur_frame := (cur + 1) mod DVZ_MAX_FRAMES_IN_FLIGHT E\<rparr>,
                      [Time window_id fidx,
                       FencesCopy window_id fences_render_finished cur fences_flight img]
                      @ rec_tr
                      @ [SubmitReset window_id, SubmitCommands window_id canvas_cmds]
                      @ (if gui_window \<noteq> None \<and> length (callbacks prt) > 0
                         then gui_callback prt window_id gui_window img else [])
                      @ [SubmitWaitSemaphores window_id sem_img_available cur,
                         SubmitSignalSemaphores window_id sem_render_finished cur,
                         SubmitSend window_id img fences_render_finished cur,
                         SwapchainPresent window_id sem_render_finished cur]))"

text \<open>
  Modelled from the spec: \<^verbatim>\<open>dvz_swapchain_acquire\<close> (vklite.c, absent) requests the next
  swapchain image, and "the swapchain's status after acquisition determines the branch".
  It updates the swapchain of the canvas (status and acquired image index) as the
  environment says and leaves the rest of the canvas as it is.
\<close>

definition dvz_swapchain_acquire :: "env \<Rightarrow> DvzCanvas \<Rightarrow> DvzCanvas" where
  "dvz_swapchain_acquire E canvas =
     canvas\<lparr>swapchain := swapchain_acquire E (swapchain canvas) (cur_frame canvas)\<rparr>"

text \<open>
  \<^verbatim>\<open>dvz_presenter_frame\<close> (presenter.c 490-674). The window, the canvas and the recorder
  are looked up by id; the fence of slot \<^verbatim>\<open>(cur_frame + 1) % DVZ_MAX_FRAMES_IN_FLIGHT\<close>
  is waited on; the next image is acquired; then the swapchain's status picks the branch.
  The \<^verbatim>\<open>INVALID\<close> branch waits for the GPU and returns. The two other branches fall through
  to \<^verbatim>\<open>dvz_transfers_frame(&ctx->transfers, swapchain->img_idx)\<close>, which reads the image
  index of the swapchain as it is then.
\<close>

definition dvz_presenter_frame :: "env \<Rightarrow> DvzPresenter \<Rightarrow> DvzId \<Rightarrow> DvzPresenter result" where
  "dvz_presenter_frame E prt window_id =
     (case windows prt window_id of
        None \<Rightarrow> Inl NullPointer
      | Some window \<Rightarrow>
     (case canvases prt window_id of
        None \<Rightarrow> Inl NullPointer
      | Some canvas \<Rightarrow>
     (case cv_recorder canvas of
        None \<Rightarrow> Inl NullPointer
      | Some recorder \<Rightarrow>
          if DVZ_MAX_FRAMES_IN_FLIGHT E = 0 then Inl DivisionByZero
          else
            let gui_window = guis prt window_id;
                tr = [FencesWait window_id fences_render_finished
                        ((cur_frame canvas + 1) mod DVZ_MAX_FRAMES_IN_FLIGHT E),
                      SwapchainAcquire window_id sem_img_available (cur_frame canvas)];
                canvas' = dvz_swapchain_acquire E canvas
            in if obj_status (swapchain canvas') = DVZ_OBJECT_STATUS_INVALID
               then Inr (prt\<lparr>canvases := (canvases prt)(window_id \<mapsto> canvas')\<rparr>,
                         tr @ [GpuWait])
               else
                 case (if obj_status (swapchain canvas') = DVZ_OBJECT_STATUS_NEED_RECREATE
                       then frame_recreate E gui_window window_id window canvas' recorder
                       else (case frame_submit E prt window_id canvas' recorder of
                               Inl e \<Rightarrow> Inl e
                             | Inr (canvas'', tr') \<Rightarrow> Inr (window, canvas'', tr'))) of
                   Inl e \<Rightarrow> Inl e
                 | Inr (window', canvas'', tr') \<Rightarrow>
                     Inr (prt\<lparr>windows := (windows prt)(window_id \<mapsto> window'),
                              canvases := (canvases prt)(window_id \<mapsto> canvas'')\<rparr>,
                          tr @ tr' @ [TransfersFrame (img_idx (swapchain canvas''))]))))"

section \<open>Overlay registry\<close>

text \<open>
  \<^verbatim>\<open>dvz_presenter_gui\<close> (presenter.c 472-486): after \<^verbatim>\<open>ASSERT(window_id != 0)\<close> and
  \<^verbatim>\<open>ANN(callback)\<close>, a new payload is appended to \<^verbatim>\<open>prt->callbacks\<close>. The callback
  argument is an option, \<open>None\<close> being the null function pointer.
\<close>

definition dvz_presenter_gui ::
  "DvzPresenter \<Rightarrow> DvzId \<Rightarrow> DvzGuiCallback option \<Rightarrow> user_data_ptr \<Rightarrow> DvzPresenter result" where
  "dvz_presenter_gui prt window_id callback user_data =
     (if \<not> window_id \<noteq> 0 then Inl AssertionFailed
      else
        case callback of
          None \<Rightarrow> Inl AssertionFailed
        | Some cb \<Rightarrow>
            let payload = \<lparr>pl_window_id = window_id, pl_callback = cb, pl_user_data = user_data\<rparr>
            in Inr (prt\<lparr>callbacks := callbacks prt @ [payload]\<rparr>, [ListAppendCallback payload]))"

section \<open>Canvas creation and deletion\<close>

text \<open>Sequencing of two steps: the first error stops, the calls are concatenated.\<close>

definition bind_result :: "'a result \<Rightarrow> ('a \<Rightarrow> 'b result) \<Rightarrow> 'b result" where
  "bind_result r f =
     (case r of
        Inl e \<Rightarrow> Inl e
      | Inr (x, tr) \<Rightarrow> (case f x of Inl e \<Rightarrow> Inl e | Inr (y, tr') \<Rightarrow> Inr (y, tr @ tr')))"

text \<open>
  Modelled from the spec: \<^verbatim>\<open>dvz_canvas_create\<close> (canvas.c, absent) "binds the surface to
  the backend object, triggering swapchain construction". Of the environment's answer
  the model keeps the swapchain and the number of command buffers.
\<close>

definition dvz_canvas_create :: "env \<Rightarrow> DvzCanvas \<Rightarrow> DvzCanvas" where
  "dvz_canvas_create E canvas =
     (let c' = canvas_create E canvas
      in canvas\<lparr>swapchain := swapchain c', cmds_count := cmds_count c'\<rparr>)"

text \<open>
  \<^verbatim>\<open>_create_canvas\<close> (presenter.c 33-137). The four flags are computed as in lines
  51-54. The canvas the renderer created is looked up at line 61, the screen size is
  asserted positive at lines 66-67, and the canvas is first dereferenced at line 78 (a
  missing one is a null dereference there). The window is created and stored in the
  client, the canvas
  takes the window's framebuffer size, the surface is created and tracked, the canvas is
  created on it, a new recorder is attached, the image-count watermark is raised, the
  optional GUI window is created and stored under the request's id (with that id as its
  \<^verbatim>\<open>obj.id\<close>), the built-in callbacks are registered, and the swapchain is marked
  \<^verbatim>\<open>NEED_RECREATE\<close>.
\<close>

definition create_canvas :: "env \<Rightarrow> DvzPresenter \<Rightarrow> DvzRequest \<Rightarrow> DvzPresenter result" where
  "create_canvas E prt req =
     (let has_gui = ((req_flags req AND DVZ_CANVAS_FLAGS_IMGUI E) \<noteq> 0);
          has_fps = ((req_flags req AND
                       (DVZ_CANVAS_FLAGS_FPS E XOR DVZ_CANVAS_FLAGS_IMGUI E)) \<noteq> 0);
          has_monitor = ((req_flags req AND
                       (DVZ_CANVAS_FLAGS_MONITOR E XOR DVZ_CANVAS_FLAGS_IMGUI E)) \<noteq> 0);
          has_fullscreen = ((req_flags req AND DVZ_CANVAS_FLAGS_FULLSCREEN E) \<noteq> 0);
          rid = req_id req
      in if \<not> screen_width req > 0 then Inl AssertionFailed
         else if \<not> screen_height req > 0 then Inl AssertionFailed
         else
           case canvases prt rid of
             None \<Rightarrow> Inl NullPointer
           | Some canvas \<Rightarrow>
               let window = client_window E rid (screen_width req) (screen_height req);
                   canvas1 = dvz_canvas_create E
                               (canvas\<lparr>cv_width := framebuffer_width window,
                                       cv_height := framebuffer_height window\<rparr>)
               in if \<not> obj_is_created E (obj_status (swapchain canvas1)) then Inl AssertionFailed
                  else
                    let canvas2 = canvas1\<lparr>cv_recorder := Some (new_recorder E)\<rparr>;
                        prt1 = prt\<lparr>windows := (windows prt)(rid \<mapsto> window),
                                   surfaces := surfaces prt @ [rid],
                                   res_img_count :=
                                     max (img_count (swapchain canvas2)) (res_img_count prt)\<rparr>;
                        tr1 = [CreateClientWindow rid (screen_width req) (screen_height req),
                               WindowInput rid, WindowSurface rid, CanvasCreate rid,
                               ListAppendSurface rid, RecorderNew rid,
                               WindowFullscreen rid has_fullscreen]
                    in bind_result
                         (if has_gui
                          then (if \<not> prt_gui prt1 then Inl AssertionFailed
                                else Inr (prt1\<lparr>guis := (guis prt1)(rid \<mapsto> \<lparr>gw_obj_id = rid\<rparr>)\<rparr>,
                                          tr1 @ [GuiWindowNew rid, MapAddGui rid]))
                          else Inr (prt1, tr1))
                         (\<lambda>prt2. bind_result
                            (if has_fps
                             then dvz_presenter_gui prt2 rid (Some gui_callback_fps) ptr_prt_fps
                             else Inr (prt2, []))
                            (\<lambda>prt3. bind_result
                               (if has_monitor
                                then dvz_presenter_gui prt3 rid
                                       (Some gui_callback_monitoring) ptr_ctx_datalloc
                                else Inr (prt3, []))
                               (\<lambda>prt4. Inr (prt4\<lparr>canvases := (canvases prt4)(rid \<mapsto>
                                   canvas2\<lparr>swapchain := (swapchain canvas2)
                                     \<lparr>obj_status := DVZ_OBJECT_STATUS_NEED_RECREATE\<rparr>\<rparr>)\<rparr>,
                                 [])))))"

text \<open>
  \<^verbatim>\<open>_delete_canvas\<close> (presenter.c 141-205). The device is waited on, then the canvas is
  looked up (\<^verbatim>\<open>ANN(canvas)\<close>) and destroyed, the recorder is destroyed if the canvas has
  one, the pointer to the canvas's surface is removed from \<^verbatim>\<open>prt->surfaces\<close> and the
  surface is destroyed, and the GUI window stored under the id, if any, is destroyed.
  The lines that would destroy the window are commented out in the source.
  \<^verbatim>\<open>dvz_list_remove_pointer\<close> removes the pointer's entry from the list.
\<close>

definition delete_canvas :: "DvzPresenter \<Rightarrow> DvzId \<Rightarrow> DvzPresenter result" where
  "delete_canvas prt cid =
     (case canvases prt cid of
        None \<Rightarrow> Inl NullPointer
      | Some canvas \<Rightarrow>
          Inr (prt\<lparr>surfaces := remove1 cid (surfaces prt)\<rparr>,
               [GpuWait, CanvasDestroy cid]
               @ (case cv_recorder canvas of None \<Rightarrow> [] | Some r \<Rightarrow> [RecorderDestroy cid])
               @ [ListRemoveSurface cid, SurfaceDestroy cid]
               @ (case guis prt cid of None \<Rightarrow> [] | Some g \<Rightarrow> [GuiWindowDestroy (gw_obj_id g)])))"

section \<open>Request router and batch submission\<close>

text \<open>\<^verbatim>\<open>_canvas_request\<close> (presenter.c 217-253).\<close>

definition canvas_request :: "env \<Rightarrow> DvzPresenter \<Rightarrow> DvzRequest \<Rightarrow> DvzPresenter result" where
  "canvas_request E prt req =
     (case req_action req of
        DVZ_REQUEST_ACTION_CREATE \<Rightarrow> create_canvas E prt req
      | DVZ_REQUEST_ACTION_DELETE \<Rightarrow> delete_canvas prt (req_id req)
      | DVZ_REQUEST_ACTION_OTHER n \<Rightarrow> Inr (prt, []))"

text \<open>
  \<^verbatim>\<open>_requester_callback\<close> (presenter.c 310-365): \<^verbatim>\<open>ASSERT(count > 0)\<close>, then every
  request goes to the renderer and, if it is about a canvas, to \<^verbatim>\<open>_canvas_request\<close>;
  the batch is destroyed at the end.
\<close>

fun requests_loop :: "env \<Rightarrow> DvzPresenter \<Rightarrow> DvzRequest list \<Rightarrow> DvzPresenter result" where
  "requests_loop E prt [] = Inr (prt, [])"
| "requests_loop E prt (req # rest) =
     bind_result
       (Inr (prt\<lparr>canvases := renderer_request E (canvases prt) req\<rparr>, [RendererRequest req]))
       (\<lambda>prt1. bind_result
          (if req_type req = DVZ_REQUEST_OBJECT_CANVAS
           then canvas_request E prt1 req else Inr (prt1, []))
          (\<lambda>prt2. requests_loop E prt2 rest))"

definition requester_callback :: "env \<Rightarrow> DvzPresenter \<Rightarrow> DvzBatch \<Rightarrow> DvzPresenter result" where
  "requester_callback E prt batch =
     (if \<not> length batch > 0 then Inl AssertionFailed
      else bind_result (requests_loop E prt batch) (\<lambda>prt'. Inr (prt', [BatchDestroy])))"

text \<open>
  \<^verbatim>\<open>dvz_presenter_submit\<close> (presenter.c 679-710): an empty batch returns at once.
  Otherwise the batch is printed if \<^verbatim>\<open>DVZ_VERBOSE\<close> starts with \<^verbatim>\<open>prt\<close>, exported if
  \<^verbatim>\<open>DVZ_DRP\<close> is set, and sent to the client as a \<^verbatim>\<open>REQUESTS\<close> event. A batch is the
  list of its requests, and \<^verbatim>\<open>dvz_batch_size\<close> is the list's length.
\<close>

definition dvz_presenter_submit :: "env \<Rightarrow> DvzPresenter \<Rightarrow> DvzBatch \<Rightarrow> DvzPresenter result" where
  "dvz_presenter_submit E prt batch =
     (if length batch = 0 then Inr (prt, [])
      else
        Inr (prt,
          (case getenv E ''DVZ_VERBOSE'' of
             None \<Rightarrow> []
           | Some v \<Rightarrow> if take 3 v = ''prt'' then [BatchPrint] else [])
          @ (case getenv E ''DVZ_DRP'' of None \<Rightarrow> [] | Some f \<Rightarrow> [BatchYaml f])
          @ [ClientEvent (DVZ_CLIENT_EVENT_REQUESTS batch)]))"

section \<open>Reading a trace\<close>

text \<open>What a result's calls are (none when the call aborted), and whether it returned.\<close>

definition calls_of :: "'a result \<Rightarrow> call list" where
  "calls_of r = (case r of Inl e \<Rightarrow> [] | Inr (x, tr) \<Rightarrow> tr)"


text \<open>The image indices given to \<^verbatim>\<open>dvz_transfers_frame\<close>, in order.\<close>

definition transfers :: "call list \<Rightarrow> uint32 list" where
  "transfers tr = concat (map (\<lambda>c. case c of TransfersFrame i \<Rightarrow> [i] | _ \<Rightarrow> []) tr)"

text \<open>The fences and slots given to \<^verbatim>\<open>dvz_fences_wait\<close>, in order.\<close>

definition fence_waits :: "call list \<Rightarrow> (fences_ref \<times> uint32) list" where
  "fence_waits tr = concat (map (\<lambda>c. case c of FencesWait w f s \<Rightarrow> [(f, s)] | _ \<Rightarrow> []) tr)"

text \<open>The events given to \<^verbatim>\<open>dvz_client_event\<close>, in order.\<close>

definition client_events :: "call list \<Rightarrow> DvzClientEvent list" where
  "client_events tr = concat (map (\<lambda>c. case c of ClientEvent ev \<Rightarrow> [ev] | _ \<Rightarrow> []) tr)"

text \<open>
  The images whose command buffer was reset (\<^verbatim>\<open>dvz_cmd_reset\<close>), filled with blank
  commands (\<^verbatim>\<open>blank_commands\<close>) and recorded (\<^verbatim>\<open>dvz_recorder_set\<close>), in order; and the
  number of calls to \<^verbatim>\<open>dvz_recorder_set_dirty\<close>.
\<close>

definition reset_images :: "call list \<Rightarrow> uint32 list" where
  "reset_images tr = concat (map (\<lambda>c. case c of CmdReset w i \<Rightarrow> [i] | _ \<Rightarrow> []) tr)"

definition blank_images :: "call list \<Rightarrow> uint32 list" where
  "blank_images tr = concat (map (\<lambda>c. case c of BlankCommands w i \<Rightarrow> [i] | _ \<Rightarrow> []) tr)"

definition recorded_images :: "call list \<Rightarrow> uint32 list" where
  "recorded_images tr = concat (map (\<lambda>c. case c of RecorderSet w i \<Rightarrow> [i] | _ \<Rightarrow> []) tr)"

definition set_dirty_calls :: "call list \<Rightarrow> nat" where
  "set_dirty_calls tr = length (filter (\<lambda>c. case c of RecorderSetDirty w \<Rightarrow> True | _ \<Rightarrow> False) tr)"

text \<open>
  The GUI callbacks called, in order: the callback, the id of the GUI window handed to
  it, and the user data handed to it.
\<close>

definition gui_calls :: "call list \<Rightarrow> (DvzGuiCallback \<times> DvzId \<times> user_data_ptr) list" where
  "gui_calls tr =
     concat (map (\<lambda>c. case c of GuiCallbackCall cb g ud \<Rightarrow> [(cb, g, ud)] | _ \<Rightarrow> []) tr)"

text \<open>The window ids given to \<^verbatim>\<open>dvz_window_destroy\<close>.\<close>

definition window_destroys :: "call list \<Rightarrow> DvzId list" where
  "window_destroys tr = concat (map (\<lambda>c. case c of WindowDestroy w \<Rightarrow> [w] | _ \<Rightarrow> []) tr)"

text \<open>
  The submissions (\<^verbatim>\<open>dvz_submit_send\<close>: image and frame slot), the presentations
  (\<^verbatim>\<open>dvz_swapchain_present\<close>: frame slot) and the GUI recordings opened
  (\<^verbatim>\<open>dvz_gui_window_begin\<close>: GUI window and image), in order.
\<close>

definition submit_sends :: "call list \<Rightarrow> (uint32 \<times> uint32) list" where
  "submit_sends tr = concat (map (\<lambda>c. case c of SubmitSend w i f s \<Rightarrow> [(i, s)] | _ \<Rightarrow> []) tr)"

definition presents :: "call list \<Rightarrow> uint32 list" where
  "presents tr = concat (map (\<lambda>c. case c of SwapchainPresent w f s \<Rightarrow> [s] | _ \<Rightarrow> []) tr)"

definition overlay_passes :: "call list \<Rightarrow> (DvzId \<times> uint32) list" where
  "overlay_passes tr = concat (map (\<lambda>c. case c of GuiWindowBegin g i \<Rightarrow> [(g, i)] | _ \<Rightarrow> []) tr)"

text \<open>
  The calls \<^verbatim>\<open>_record_command\<close> makes for image \<open>i\<close> of a canvas whose recorder is \<open>r\<close>
  (used to write down the traces of the frame driver).
\<close>

definition refill_calls :: "DvzId \<Rightarrow> DvzRecorder \<Rightarrow> uint32 \<Rightarrow> call list" where
  "refill_calls cid r i =
     (if rec_count r > 0 then [CmdReset cid i, RecorderSet cid i]
      else [CmdReset cid i, BlankCommands cid i, RecorderSet cid i])"

text \<open>The recorder after the images \<open>ixs\<close> have been recorded, one after the other.\<close>

definition record_all :: "DvzRecorder \<Rightarrow> uint32 list \<Rightarrow> DvzRecorder" where
  "record_all r ixs = fold (\<lambda>i r'. dvz_recorder_set r' i) ixs r"

section \<open>A concrete environment and concrete presenters\<close>

text \<open>
  An environment to run the model on: two frames in flight, the canvas flags as bit
  masks in which the frame-rate and the monitoring flag each include the GUI bit, a
  swapchain of three images whose acquisition moves to the next image and keeps the
  status, a recreation that leaves the swapchain in an ordinary status, a window whose
  framebuffer is twice its screen size, and new recorders that are empty and dirty.
\<close>

definition example_env :: env where
  "example_env =
     \<lparr>DVZ_MAX_FRAMES_IN_FLIGHT = 2, DVZ_MAX_TIMESTAMPS = 32,
      DVZ_CANVAS_FLAGS_IMGUI = 1, DVZ_CANVAS_FLAGS_FPS = 3,
      DVZ_CANVAS_FLAGS_MONITOR = 5, DVZ_CANVAS_FLAGS_FULLSCREEN = 8,
      swapchain_acquire = (\<lambda>sc cur. sc\<lparr>img_idx := (img_idx sc + 1) mod 3\<rparr>),
      window_poll_size = (\<lambda>w. w\<lparr>win_width := 1024, win_height := 768\<rparr>),
      canvas_recreate = (\<lambda>c. c\<lparr>cv_width := 2048, cv_height := 1536,
                                 swapchain := (swapchain c)\<lparr>obj_status := DVZ_OBJECT_STATUS_OTHER 0\<rparr>\<rparr>),
      canvas_create = (\<lambda>c. c\<lparr>cmds_count := 3,
                               swapchain := \<lparr>obj_status = DVZ_OBJECT_STATUS_OTHER 0,
                                             img_idx = 0, img_count = 3\<rparr>\<rparr>),
      renderer_request = (\<lambda>cs req. cs),
      client_window = (\<lambda>i w h. \<lparr>win_width = w, win_height = h,
                                  framebuffer_width = 2 * w, framebuffer_height = 2 * h\<rparr>),
      new_recorder = \<lparr>rec_count = 0, rec_dirty = (\<lambda>i. True)\<rparr>,
      obj_is_created = (\<lambda>s. s \<noteq> DVZ_OBJECT_STATUS_INVALID),
      getenv = (\<lambda>name. None)\<rparr>"

definition example_window :: DvzWindow where
  "example_window =
     \<lparr>win_width = 800, win_height = 600, framebuffer_width = 1600, framebuffer_height = 1200\<rparr>"

text \<open>A recorder with the given number of cached commands and every image dirty.\<close>

definition example_recorder :: "uint32 \<Rightarrow> DvzRecorder" where
  "example_recorder n = \<lparr>rec_count = n, rec_dirty = (\<lambda>i. True)\<rparr>"

text \<open>A canvas of three images with the given swapchain status and number of cached commands.\<close>

definition example_canvas :: "DvzObjectStatus \<Rightarrow> uint32 \<Rightarrow> DvzCanvas" where
  "example_canvas st n =
     \<lparr>cv_width = 1600, cv_height = 1200, cv_recorder = Some (example_recorder n),
      cur_frame = 0, cmds_count = 3,
      swapchain = \<lparr>obj_status = st, img_idx = 0, img_count = 3\<rparr>,
      frame_time_idx = 0\<rparr>"

text \<open>
  A presenter with one surface, id 1, with a GUI window, the given swapchain status,
  number of cached commands and registered callbacks.
\<close>

definition example_prt ::
  "DvzObjectStatus \<Rightarrow> uint32 \<Rightarrow> DvzGuiCallbackPayload list \<Rightarrow> DvzPresenter" where
  "example_prt st n cbs =
     \<lparr>prt_gui = True, guis = [1 \<mapsto> \<lparr>gw_obj_id = 1\<rparr>], callbacks = cbs, surfaces = [1],
      windows = [1 \<mapsto> example_window], canvases = [1 \<mapsto> example_canvas st n],
      res_img_count = 3\<rparr>"

text \<open>Three callbacks registered for window 1 and one for window 2 (the second in the list).\<close>

definition example_callbacks :: "DvzGuiCallbackPayload list" where
  "example_callbacks =
     [\<lparr>pl_window_id = 1, pl_callback = user_callback 10, pl_user_data = ptr_user 100\<rparr>,
      \<lparr>pl_window_id = 2, pl_callback = user_callback 20, pl_user_data = ptr_user 200\<rparr>,
      \<lparr>pl_window_id = 1, pl_callback = user_callback 11, pl_user_data = ptr_user 101\<rparr>,
      \<lparr>pl_window_id = 1, pl_callback = user_callback 12, pl_user_data = ptr_user 102\<rparr>]"

definition example_request :: "32 word \<Rightarrow> DvzRequest" where
  "example_request fl =
     \<lparr>req_action = DVZ_REQUEST_ACTION_CREATE, req_type = DVZ_REQUEST_OBJECT_CANVAS,
      req_id = 1, req_flags = fl, screen_width = 800, screen_height = 600\<rparr>"

section \<open>Lemmas on traces and on the branches of the frame driver\<close>

lemma transfers_simps:
  "transfers [] = []"
  "transfers (c # tr) = (case c of TransfersFrame i \<Rightarrow> [i] | _ \<Rightarrow> []) @ transfers tr"
  "transfers (tr @ tr') = transfers tr @ transfers tr'"
  by (simp_all add: transfers_def)

lemma fence_waits_simps:
  "fence_waits [] = []"
  "fence_waits (c # tr) = (case c of FencesWait w f s \<Rightarrow> [(f, s)] | _ \<Rightarrow> []) @ fence_waits tr"
  "fence_waits (tr @ tr') = fence_waits tr @ fence_waits tr'"
  by (simp_all add: fence_waits_def)

lemma client_events_simps:
  "client_events [] = []"
  "client_events (c # tr) = (case c of ClientEvent ev \<Rightarrow> [ev] | _ \<Rightarrow> []) @ client_events tr"
  "client_events (tr @ tr') = client_events tr @ client_events tr'"
  by (simp_all add: client_events_def)

lemma reset_images_simps:
  "reset_images [] = []"
  "reset_images (c # tr) = (case c of CmdReset w i \<Rightarrow> [i] | _ \<Rightarrow> []) @ reset_images tr"
  "reset_images (tr @ tr') = reset_images tr @ reset_images tr'"
  by (simp_all add: reset_images_def)

lemma blank_images_simps:
  "blank_images [] = []"
  "blank_images (c # tr) = (case c of BlankCommands w i \<Rightarrow> [i] | _ \<Rightarrow> []) @ blank_images tr"
  "blank_images (tr @ tr') = blank_images tr @ blank_images tr'"
  by (simp_all add: blank_images_def)

lemma recorded_images_simps:
  "recorded_images [] = []"
  "recorded_images (c # tr) = (case c of RecorderSet w i \<Rightarrow> [i] | _ \<Rightarrow> []) @ recorded_images tr"
  "recorded_images (tr @ tr') = recorded_images tr @ recorded_images tr'"
  by (simp_all add: recorded_images_def)

lemma gui_calls_simps:
  "gui_calls [] = []"
  "gui_calls (c # tr) = (case c of GuiCallbackCall cb g ud \<Rightarrow> [(cb, g, ud)] | _ \<Rightarrow> []) @ gui_calls tr"
  "gui_calls (tr @ tr') = gui_calls tr @ gui_calls tr'"
  by (simp_all add: gui_calls_def)

lemma window_destroys_simps:
  "window_destroys [] = []"
  "window_destroys (c # tr) = (case c of WindowDestroy w \<Rightarrow> [w] | _ \<Rightarrow> []) @ window_destroys tr"
  "window_destroys (tr @ tr') = window_destroys tr @ window_destroys tr'"
  by (simp_all add: window_destroys_def)

lemma submit_sends_simps:
  "submit_sends [] = []"
  "submit_sends (c # tr) = (case c of SubmitSend w i f s \<Rightarrow> [(i, s)] | _ \<Rightarrow> []) @ submit_sends tr"
  "submit_sends (tr @ tr') = submit_sends tr @ submit_sends tr'"
  by (simp_all add: submit_sends_def)

lemma presents_simps:
  "presents [] = []"
  "presents (c # tr) = (case c of SwapchainPresent w f s \<Rightarrow> [s] | _ \<Rightarrow> []) @ presents tr"
  "presents (tr @ tr') = presents tr @ presents tr'"
  by (simp_all add: presents_def)

lemma overlay_passes_simps:
  "overlay_passes [] = []"
  "overlay_passes (c # tr) = (case c of GuiWindowBegin g i \<Rightarrow> [(g, i)] | _ \<Rightarrow> []) @ overlay_passes tr"
  "overlay_passes (tr @ tr') = overlay_passes tr @ overlay_passes tr'"
  by (simp_all add: overlay_passes_def)

lemma set_dirty_calls_simps:
  "set_dirty_calls [] = 0"
  "set_dirty_calls (c # tr) =
     (case c of RecorderSetDirty w \<Rightarrow> 1 | _ \<Rightarrow> 0) + set_dirty_calls tr"
  "set_dirty_calls (tr @ tr') = set_dirty_calls tr + set_dirty_calls tr'"
  by (simp_all add: set_dirty_calls_def split: call.splits)

lemmas trace_simps = transfers_simps fence_waits_simps client_events_simps reset_images_simps blank_images_simps recorded_images_simps gui_calls_simps window_destroys_simps submit_sends_simps presents_simps overlay_passes_simps set_dirty_calls_simps

lemma refill_calls_recorder_set [simp]:
  "refill_calls cid (dvz_recorder_set r j) i = refill_calls cid r i"
  by (simp add: refill_calls_def dvz_recorder_set_def)

lemma record_command_Some:
  "cv_recorder canvas = Some r \<Longrightarrow>
   record_command cid canvas i =
     Inr (canvas\<lparr>cv_recorder := Some (dvz_recorder_set r i)\<rparr>, refill_calls cid r i)"
  by (simp add: record_command_def refill_calls_def)

lemma record_loop_Some:
  "cv_recorder canvas = Some r \<Longrightarrow>
   record_loop cid canvas ixs =
     Inr (canvas\<lparr>cv_recorder := Some (record_all r ixs)\<rparr>,
          concat (map (refill_calls cid r) ixs))"
proof (induction ixs arbitrary: canvas r)
  case Nil
  then show ?case
    by (cases canvas) (simp add: record_all_def)
next
  case (Cons i ixs)
  have "cv_recorder (canvas\<lparr>cv_recorder := Some (dvz_recorder_set r i)\<rparr>)
          = Some (dvz_recorder_set r i)"
    by simp
  from Cons.IH [OF this] show ?case
    by (simp add: record_command_Some [OF Cons.prems] record_all_def)
qed

lemma record_all_count [simp]: "rec_count (record_all r ixs) = rec_count r"
  by (induction ixs arbitrary: r) (simp_all add: record_all_def dvz_recorder_set_def)

lemma record_all_dirty:
  "rec_dirty (record_all r ixs) i = (rec_dirty r i \<and> i \<notin> set ixs)"
  by (induction ixs arbitrary: r) (auto simp: record_all_def dvz_recorder_set_def)

lemma cmds_indices_set:
  "(i \<in> set (cmds_indices canvas)) = (i < cmds_count canvas)"
proof
  assume "i \<in> set (cmds_indices canvas)"
  then obtain k where k: "k < unat (cmds_count canvas)" and i: "i = word_of_nat k"
    by (auto simp: cmds_indices_def)
  have "unat (word_of_nat k :: uint32) \<le> k"
    by (simp add: unat_of_nat)
  with k show "i < cmds_count canvas"
    unfolding i by (simp add: word_less_nat_alt)
next
  assume "i < cmds_count canvas"
  then have "unat i < unat (cmds_count canvas)"
    by (simp add: word_less_nat_alt)
  moreover have "word_of_nat (unat i) = i" by simp
  ultimately show "i \<in> set (cmds_indices canvas)"
    unfolding cmds_indices_def by (metis atLeast0LessThan image_eqI lessThan_iff list.set_map set_upt)
qed

lemma refill_reset_images: "reset_images (concat (map (refill_calls cid r) ixs)) = ixs"
  by (induction ixs) (simp_all add: reset_images_def refill_calls_def)

lemma refill_recorded_images: "recorded_images (concat (map (refill_calls cid r) ixs)) = ixs"
  by (induction ixs) (simp_all add: recorded_images_def refill_calls_def)

lemma refill_set_dirty_calls: "set_dirty_calls (concat (map (refill_calls cid r) ixs)) = 0"
  by (induction ixs) (simp_all add: set_dirty_calls_def refill_calls_def)


lemma refill_fence_waits: "fence_waits (concat (map (refill_calls cid r) ixs)) = []"
  by (induction ixs) (simp_all add: fence_waits_def refill_calls_def)

lemma refill_client_events: "client_events (concat (map (refill_calls cid r) ixs)) = []"
  by (induction ixs) (simp_all add: client_events_def refill_calls_def)


lemma callback_calls_fence_waits: "fence_waits (callback_calls g ps) = []"
  by (induction ps) (simp_all add: fence_waits_def callback_calls_def)

lemma callback_calls_client_events: "client_events (callback_calls g ps) = []"
  by (induction ps) (simp_all add: client_events_def callback_calls_def)

lemma callback_calls_gui_calls:
  "gui_calls (callback_calls g ps) =
     map (\<lambda>p. (pl_callback p, gw_obj_id g, pl_user_data p))
       (filter (\<lambda>p. pl_window_id p = gw_obj_id g) ps)"
  by (induction ps) (simp_all add: gui_calls_def callback_calls_def)

lemma recreate_keeps_recorder:
  "cv_recorder (dvz_canvas_recreate E c) = cv_recorder c"
  by (simp add: dvz_canvas_recreate_def Let_def)

lemma acquire_keeps:
  "cv_recorder (dvz_swapchain_acquire E c) = cv_recorder c"
  "cur_frame (dvz_swapchain_acquire E c) = cur_frame c"
  "frame_time_idx (dvz_swapchain_acquire E c) = frame_time_idx c"
  by (simp_all add: dvz_swapchain_acquire_def)

lemma frame_invalid:
  assumes "windows prt wid = Some window" and "canvases prt wid = Some canvas"
    and "cv_recorder canvas = Some r" and "DVZ_MAX_FRAMES_IN_FLIGHT E \<noteq> 0"
    and "obj_status (swapchain (dvz_swapchain_acquire E canvas)) = DVZ_OBJECT_STATUS_INVALID"
  shows "dvz_presenter_frame E prt wid =
     Inr (prt\<lparr>canvases := (canvases prt)(wid \<mapsto> dvz_swapchain_acquire E canvas)\<rparr>,
          [FencesWait wid fences_render_finished
             ((cur_frame canvas + 1) mod DVZ_MAX_FRAMES_IN_FLIGHT E),
           SwapchainAcquire wid sem_img_available (cur_frame canvas), GpuWait])"
  using assms by (simp add: dvz_presenter_frame_def)

lemma frame_need_recreate:
  assumes "windows prt wid = Some window" and "canvases prt wid = Some canvas"
    and "cv_recorder canvas = Some r" and "DVZ_MAX_FRAMES_IN_FLIGHT E \<noteq> 0"
    and "obj_status (swapchain (dvz_swapchain_acquire E canvas)) = DVZ_OBJECT_STATUS_NEED_RECREATE"
  shows "dvz_presenter_frame E prt wid =
     Inr (prt\<lparr>windows := (windows prt)(wid \<mapsto> window_poll_size E window),
              canvases := (canvases prt)(wid \<mapsto>
                 (dvz_canvas_recreate E (dvz_swapchain_acquire E canvas))
                   \<lparr>cv_recorder := Some (record_all (dvz_recorder_set_dirty r)
                      (cmds_indices (dvz_canvas_recreate E (dvz_swapchain_acquire E canvas))))\<rparr>)\<rparr>,
          [FencesWait wid fences_render_finished
             ((cur_frame canvas + 1) mod DVZ_MAX_FRAMES_IN_FLIGHT E),
           SwapchainAcquire wid sem_img_available (cur_frame canvas),
           GpuWait, WindowPollSize wid, CanvasRecreate wid,
           SemaphoresRecreate wid sem_img_available,
           SemaphoresRecreate wid sem_render_finished]
          @ (case guis prt wid of None \<Rightarrow> []
             | Some g \<Rightarrow> [GuiWindowResize (gw_obj_id g)
                 (cv_width (dvz_canvas_recreate E (dvz_swapchain_acquire E canvas)))
                 (cv_height (dvz_canvas_recreate E (dvz_swapchain_acquire E canvas)))])
          @ [ClientEvent (DVZ_CLIENT_EVENT_WINDOW_RESIZE wid
                (cv_width (dvz_canvas_recreate E (dvz_swapchain_acquire E canvas)))
                (cv_height (dvz_canvas_recreate E (dvz_swapchain_acquire E canvas)))
                (win_width (window_poll_size E window))
                (win_height (window_poll_size E window))),
             RecorderSetDirty wid]
          @ concat (map (refill_calls wid r)
              (cmds_indices (dvz_canvas_recreate E (dvz_swapchain_acquire E canvas))))
          @ [TransfersFrame
              (img_idx (swapchain (dvz_canvas_recreate E (dvz_swapchain_acquire E canvas))))])"
proof -
  let ?c = "dvz_canvas_recreate E (dvz_swapchain_acquire E canvas)"
  let ?d = "?c\<lparr>cv_recorder := Some (dvz_recorder_set_dirty r)\<rparr>"
  have rec: "cv_recorder ?d = Some (dvz_recorder_set_dirty r)"
    by simp
  have ix: "cmds_indices ?d = cmds_indices ?c"
    by (simp add: cmds_indices_def)
  have calls: "refill_calls wid (dvz_recorder_set_dirty r) = refill_calls wid r"
    by (rule ext) (simp add: refill_calls_def dvz_recorder_set_dirty_def)
  have loop: "record_loop wid ?d (cmds_indices ?c) =
      Inr (?c\<lparr>cv_recorder := Some (record_all (dvz_recorder_set_dirty r) (cmds_indices ?c))\<rparr>,
           concat (map (refill_calls wid r) (cmds_indices ?c)))"
    unfolding record_loop_Some [OF rec] calls by simp
  show ?thesis
    using assms loop
    by (simp add: dvz_presenter_frame_def frame_recreate_def Let_def acquire_keeps ix)
qed

lemma frame_ready:
  assumes "windows prt wid = Some window" and "canvases prt wid = Some canvas"
    and "cv_recorder canvas = Some r" and "DVZ_MAX_FRAMES_IN_FLIGHT E \<noteq> 0"
    and "DVZ_MAX_TIMESTAMPS E \<noteq> 0"
    and "obj_status (swapchain (dvz_swapchain_acquire E canvas)) \<noteq> DVZ_OBJECT_STATUS_INVALID"
    and "obj_status (swapchain (dvz_swapchain_acquire E canvas)) \<noteq> DVZ_OBJECT_STATUS_NEED_RECREATE"
  shows "dvz_presenter_frame E prt wid =
     Inr (prt\<lparr>windows := (windows prt)(wid \<mapsto> window),
              canvases := (canvases prt)(wid \<mapsto>
                (dvz_swapchain_acquire E canvas)
                  \<lparr>frame_time_idx := frame_time_idx canvas + 1,
                   cv_recorder := Some
                     (if rec_dirty r (img_idx (swapchain (dvz_swapchain_acquire E canvas)))
                      then dvz_recorder_set r
                             (img_idx (swapchain (dvz_swapchain_acquire E canvas)))
                      else r),
                   cur_frame := (cur_frame canvas + 1) mod DVZ_MAX_FRAMES_IN_FLIGHT E\<rparr>)\<rparr>,
          [FencesWait wid fences_render_finished
             ((cur_frame canvas + 1) mod DVZ_MAX_FRAMES_IN_FLIGHT E),
           SwapchainAcquire wid sem_img_available (cur_frame canvas),
           Time wid (frame_time_idx canvas mod DVZ_MAX_TIMESTAMPS E),
           FencesCopy wid fences_render_finished (cur_frame canvas) fences_flight
             (img_idx (swapchain (dvz_swapchain_acquire E canvas)))]
          @ (if rec_dirty r (img_idx (swapchain (dvz_swapchain_acquire E canvas)))
             then refill_calls wid r (img_idx (swapchain (dvz_swapchain_acquire E canvas)))
             else [])
          @ [SubmitReset wid, SubmitCommands wid canvas_cmds]
          @ (if guis prt wid \<noteq> None \<and> callbacks prt \<noteq> []
             then gui_callback prt wid (guis prt wid)
                    (img_idx (swapchain (dvz_swapchain_acquire E canvas)))
             else [])
          @ [SubmitWaitSemaphores wid sem_img_available (cur_frame canvas),
             SubmitSignalSemaphores wid sem_render_finished (cur_frame canvas),
             SubmitSend wid (img_idx (swapchain (dvz_swapchain_acquire E canvas)))
               fences_render_finished (cur_frame canvas),
             SwapchainPresent wid sem_render_finished (cur_frame canvas),
             TransfersFrame (img_idx (swapchain (dvz_swapchain_acquire E canvas)))])"
proof -
  let ?c = "dvz_swapchain_acquire E canvas"
  have lt: "frame_time_idx canvas mod DVZ_MAX_TIMESTAMPS E < DVZ_MAX_TIMESTAMPS E"
    using assms(5) by (simp add: word_mod_less_divisor word_greater_zero_iff)
  have same: "c\<lparr>cv_recorder := Some r\<rparr> = c" if "cv_recorder c = Some r" for c :: DvzCanvas
    using that by (cases c) simp
  show ?thesis
    using assms lt
    by (simp add: dvz_presenter_frame_def frame_submit_def Let_def record_command_def
        refill_calls_def acquire_keeps dvz_recorder_is_dirty_def same)
qed

lemma callback_calls_filter:
  "callback_calls g ps =
     map (\<lambda>p. GuiCallbackCall (pl_callback p) (gw_obj_id g) (pl_user_data p))
       (filter (\<lambda>p. pl_window_id p = gw_obj_id g) ps)"
  by (induction ps) (simp_all add: callback_calls_def)

lemma next_slot_differs:
  fixes c n :: uint32
  assumes "1 < n"
  shows "(c + 1) mod n \<noteq> c"
  by (metis (no_types, lifting) add_cancel_right_right assms inc_less_eq_iff
    mod_word_less mod_word_self neg_equal_0_iff_equal nless_le word_less_1
    word_mod_less_divisor)

lemma flags_sub_set:
  fixes f sub imgui :: "32 word"
  assumes "sub AND imgui = imgui" and "sub \<noteq> imgui" and "f AND sub = sub"
  shows "f AND (sub XOR imgui) \<noteq> 0"
  by (metis and.assoc assms(1,2,3) bit.conj_xor_distrib bit.xor_left_self
    xor.right_neutral)

lemma flags_sub_clear:
  fixes f sub other imgui :: "32 word"
  assumes "sub AND imgui = imgui" and "f AND (sub OR other) = imgui"
  shows "f AND (sub XOR imgui) = 0"
  by (metis (no_types, lifting) and.left_commute and.left_idem assms(1,2)
    bit.conj_xor_distrib bit.xor_self word_ao_absorbs(3))

lemma flags_sub_clear':
  fixes f sub other imgui :: "32 word"
  assumes "sub AND imgui = imgui" and "f AND (other OR sub) = imgui"
  shows "f AND (sub XOR imgui) = 0"
  using flags_sub_clear [OF assms(1), of f other] assms(2) by (simp add: or.commute)

lemma flags_gui:
  fixes f sub imgui :: "32 word"
  assumes "sub AND imgui = imgui" and "imgui \<noteq> 0" and "f AND sub = sub"
  shows "f AND imgui \<noteq> 0"
  by (metis and.assoc assms(1,2,3))

lemma create_canvas_gui_window_id:
  assumes "create_canvas E prt req = Inr (prt', tr)"
    and "req_flags req AND DVZ_CANVAS_FLAGS_IMGUI E \<noteq> 0"
  shows "guis prt' (req_id req) = Some \<lparr>gw_obj_id = req_id req\<rparr>"
  using assms
  by (auto simp: create_canvas_def Let_def bind_result_def dvz_presenter_gui_def
      split: option.splits if_splits)

lemma create_canvas_recorder:
  assumes "create_canvas E prt req = Inr (prt', tr)"
  shows "\<exists>c. canvases prt' (req_id req) = Some c \<and> cv_recorder c = Some (new_recorder E)
           \<and> obj_status (swapchain c) = DVZ_OBJECT_STATUS_NEED_RECREATE"
  using assms
  by (auto simp: create_canvas_def Let_def bind_result_def dvz_presenter_gui_def
      split: option.splits if_splits)

lemmas example_defs = example_env_def example_prt_def example_canvas_def example_window_def
  example_callbacks_def example_request_def example_recorder_def dvz_swapchain_acquire_def
  dvz_canvas_recreate_def dvz_canvas_create_def dvz_recorder_set_dirty_def dvz_recorder_set_def
  dvz_recorder_is_dirty_def

text \<open>
  The request router on a batch without canvas requests hands every request to the
  renderer, in order, and destroys the batch; and a non-empty batch given to
  \<^verbatim>\<open>dvz_presenter_submit\<close> reaches the client as one \<^verbatim>\<open>REQUESTS\<close> event.
\<close>

lemma requests_loop_no_canvas:
  "list_all (\<lambda>req. req_type req \<noteq> DVZ_REQUEST_OBJECT_CANVAS) batch \<Longrightarrow>
   \<exists>prt'. requests_loop E prt batch = Inr (prt', map RendererRequest batch)"
proof (induction batch arbitrary: prt)
  case Nil
  show ?case by simp
next
  case (Cons a batch)
  let ?p = "prt\<lparr>canvases := renderer_request E (canvases prt) a\<rparr>"
  from Cons.prems have rest: "list_all (\<lambda>req. req_type req \<noteq> DVZ_REQUEST_OBJECT_CANVAS) batch"
    and a: "req_type a \<noteq> DVZ_REQUEST_OBJECT_CANVAS"
    by simp_all
  from Cons.IH [OF rest, of ?p]
  obtain prt' where "requests_loop E ?p batch = Inr (prt', map RendererRequest batch)"
    by blast
  then show ?case
    using a by (simp add: bind_result_def)
qed

lemma requester_callback_no_canvas:
  assumes "batch \<noteq> []"
    and "list_all (\<lambda>req. req_type req \<noteq> DVZ_REQUEST_OBJECT_CANVAS) batch"
  shows "\<exists>prt'. requester_callback E prt batch
           = Inr (prt', map RendererRequest batch @ [BatchDestroy])"
  using requests_loop_no_canvas [OF assms(2), of E prt] assms(1)
  by (auto simp: requester_callback_def bind_result_def)

lemma submit_nonempty_batch:
  "batch \<noteq> [] \<Longrightarrow>
   dvz_presenter_submit E prt batch =
     Inr (prt,
       (case getenv E ''DVZ_VERBOSE'' of
          None \<Rightarrow> []
        | Some v \<Rightarrow> if take 3 v = ''prt'' then [BatchPrint] else [])
       @ (case getenv E ''DVZ_DRP'' of None \<Rightarrow> [] | Some f \<Rightarrow> [BatchYaml f])
       @ [ClientEvent (DVZ_CLIENT_EVENT_REQUESTS batch)])"
  by (simp add: dvz_presenter_submit_def)

text \<open>
  A run of the model: on the example presenter, a batch with one request that creates
  canvas 1 with the flags of the GUI, the frame-rate and the monitoring overlay, followed
  by the first tick of that surface. The creation leaves the swapchain in need of
  recreation, so the first tick recreates it, emits the resize event and records blank
  commands for the three images.
\<close>

lemma example_create_then_first_tick:
  "(case requester_callback example_env
           (example_prt (DVZ_OBJECT_STATUS_OTHER 0) 0 []) [example_request 7] of
      Inl e \<Rightarrow> []
    | Inr (prt', tr) \<Rightarrow> tr @ calls_of (dvz_presenter_frame example_env prt' 1))
   = [RendererRequest (example_request 7),
      CreateClientWindow 1 800 600, WindowInput 1, WindowSurface 1, CanvasCreate 1,
      ListAppendSurface 1, RecorderNew 1, WindowFullscreen 1 False,
      GuiWindowNew 1, MapAddGui 1,
      ListAppendCallback
        \<lparr>pl_window_id = 1, pl_callback = gui_callback_fps, pl_user_data = ptr_prt_fps\<rparr>,
      ListAppendCallback
        \<lparr>pl_window_id = 1, pl_callback = gui_callback_monitoring,
         pl_user_data = ptr_ctx_datalloc\<rparr>,
      BatchDestroy,
      FencesWait 1 fences_render_finished 1, SwapchainAcquire 1 sem_img_available 0,
      GpuWait, WindowPollSize 1, CanvasRecreate 1,
      SemaphoresRecreate 1 sem_img_available, SemaphoresRecreate 1 sem_render_finished,
      GuiWindowResize 1 2048 1536,
      ClientEvent (DVZ_CLIENT_EVENT_WINDOW_RESIZE 1 2048 1536 1024 768),
      RecorderSetDirty 1,
      CmdReset 1 0, BlankCommands 1 0, RecorderSet 1 0,
      CmdReset 1 1, BlankCommands 1 1, RecorderSet 1 1,
      CmdReset 1 2, BlankCommands 1 2, RecorderSet 1 2,
      TransfersFrame 1]"
  by (simp add: requester_callback_def canvas_request_def create_canvas_def bind_result_def
      dvz_presenter_gui_def calls_of_def dvz_presenter_frame_def frame_recreate_def
      record_command_def cmds_indices_def example_defs Let_def upt_rec)

section \<open>The claims\<close>

subsection \<open>C1: notification of the transfer subsystem\<close>




subsection \<open>C2: the fence that is waited on\<close>

text \<open>
  C2: in every tick of the frame driver the fence waited on before the acquisition is
  the one of slot \<open>(cur_frame + 1) mod DVZ_MAX_FRAMES_IN_FLIGHT\<close>, the next slot to be
  reused, and not the fence of \<open>cur_frame\<close> itself.

  The tick on a live surface returns; its first call is that wait, on the fences
  \<^verbatim>\<open>fences_render_finished\<close>, its second call is the acquisition, and no other fence is
  waited on in the tick. The constant \<^verbatim>\<open>DVZ_MAX_FRAMES_IN_FLIGHT\<close> is defined in a header
  that is not among the sources and is a parameter here; the slot differs from
  \<open>cur_frame\<close> as soon as there are at least two slots.
\<close>

theorem frame_waits_on_next_slot:
  assumes "windows prt wid = Some window" and "canvases prt wid = Some canvas"
    and "cv_recorder canvas = Some r" and "1 < DVZ_MAX_FRAMES_IN_FLIGHT E"
    and "DVZ_MAX_TIMESTAMPS E \<noteq> 0"
  shows "\<exists>prt' tr.
           dvz_presenter_frame E prt wid =
             Inr (prt',
                  FencesWait wid fences_render_finished
                    ((cur_frame canvas + 1) mod DVZ_MAX_FRAMES_IN_FLIGHT E)
                  # SwapchainAcquire wid sem_img_available (cur_frame canvas) # tr)
           \<and> fence_waits tr = []
           \<and> (cur_frame canvas + 1) mod DVZ_MAX_FRAMES_IN_FLIGHT E \<noteq> cur_frame canvas"
proof -
  have n0: "DVZ_MAX_FRAMES_IN_FLIGHT E \<noteq> 0" using assms(4) by auto
  note live = assms(1-3) n0
  consider
      (invalid) "obj_status (swapchain (dvz_swapchain_acquire E canvas)) = DVZ_OBJECT_STATUS_INVALID"
    | (recreate) "obj_status (swapchain (dvz_swapchain_acquire E canvas)) = DVZ_OBJECT_STATUS_NEED_RECREATE"
    | (ready) "obj_status (swapchain (dvz_swapchain_acquire E canvas)) \<noteq> DVZ_OBJECT_STATUS_INVALID"
        "obj_status (swapchain (dvz_swapchain_acquire E canvas)) \<noteq> DVZ_OBJECT_STATUS_NEED_RECREATE"
    by blast
  then have "\<exists>prt' tr.
           dvz_presenter_frame E prt wid =
             Inr (prt',
                  FencesWait wid fences_render_finished
                    ((cur_frame canvas + 1) mod DVZ_MAX_FRAMES_IN_FLIGHT E)
                  # SwapchainAcquire wid sem_img_available (cur_frame canvas) # tr)
           \<and> fence_waits tr = []"
  proof cases
    case invalid
    show ?thesis
      unfolding frame_invalid [OF live invalid] by (simp add: trace_simps)
  next
    case recreate
    show ?thesis
      unfolding frame_need_recreate [OF live recreate]
      by (simp add: trace_simps refill_fence_waits split: option.splits)
  next
    case ready
    show ?thesis
      unfolding frame_ready [OF live assms(5) ready]
      by (simp add: trace_simps gui_callback_def refill_calls_def
            callback_calls_fence_waits split: option.splits)
  qed
  with next_slot_differs [OF assms(4)] show ?thesis by blast
qed

theorem frame_waits_on_next_slot_witness:
  "windows (example_prt (DVZ_OBJECT_STATUS_OTHER 0) 2 example_callbacks) 1 = Some example_window
   \<and> canvases (example_prt (DVZ_OBJECT_STATUS_OTHER 0) 2 example_callbacks) 1
       = Some (example_canvas (DVZ_OBJECT_STATUS_OTHER 0) 2)
   \<and> cv_recorder (example_canvas (DVZ_OBJECT_STATUS_OTHER 0) 2) = Some (example_recorder 2)
   \<and> 1 < DVZ_MAX_FRAMES_IN_FLIGHT example_env
   \<and> DVZ_MAX_TIMESTAMPS example_env \<noteq> 0
   \<and> (\<exists>prt' tr.
         dvz_presenter_frame example_env
           (example_prt (DVZ_OBJECT_STATUS_OTHER 0) 2 example_callbacks) 1
           = Inr (prt', FencesWait 1 fences_render_finished 1
                        # SwapchainAcquire 1 sem_img_available 0 # tr)
         \<and> fence_waits tr = []
         \<and> (1 :: uint32) \<noteq> 0)"
proof -
  let ?P = "example_prt (DVZ_OBJECT_STATUS_OTHER 0) 2 example_callbacks"
  let ?C = "example_canvas (DVZ_OBJECT_STATUS_OTHER 0) 2"
  have h1: "windows ?P 1 = Some example_window" and h2: "canvases ?P 1 = Some ?C"
    and h3: "cv_recorder ?C = Some (example_recorder 2)"
    by (simp_all add: example_prt_def example_canvas_def)
  have h4: "1 < DVZ_MAX_FRAMES_IN_FLIGHT example_env"
    and h5: "DVZ_MAX_TIMESTAMPS example_env \<noteq> 0"
    by (simp_all add: example_env_def)
  have v: "cur_frame ?C = 0" "(0 + 1) mod DVZ_MAX_FRAMES_IN_FLIGHT example_env = 1"
    by (simp_all add: example_canvas_def example_env_def)
  from frame_waits_on_next_slot [OF h1 h2 h3 h4 h5]
  have concl: "\<exists>prt' tr.
         dvz_presenter_frame example_env ?P 1
           = Inr (prt', FencesWait 1 fences_render_finished 1
                        # SwapchainAcquire 1 sem_img_available 0 # tr)
         \<and> fence_waits tr = []
         \<and> (1 :: uint32) \<noteq> 0"
    unfolding v .
  show ?thesis
    using h1 h2 h3 h4 h5 concl by blast
qed

subsection \<open>C3: recreation re-records every image\<close>

text \<open>
  C3: in every tick that observes the swapchain as NeedsRecreate, every image's dirty bit
  is set and the command buffer of every image (all \<^verbatim>\<open>cmds->count\<close> of them, not only the
  acquired one) is re-recorded before the tick returns.

  The tick returns after exactly the calls below: after the recreation and the resize
  event it calls \<^verbatim>\<open>dvz_recorder_set_dirty\<close> on the canvas's recorder, and then, for every
  image \<open>0, 1, ..., cmds->count - 1\<close> of the recreated canvas in this order, it resets the
  image's command buffer of this canvas, fills it (with blank commands when the recorder
  is empty) and records it. The recorder that \<^verbatim>\<open>dvz_recorder_set_dirty\<close> leaves has the
  dirty bit of every image set, whatever the bits were before. When the tick returns, the
  canvas's recorder has the dirty bit of every image below \<^verbatim>\<open>cmds->count\<close> cleared by its
  recording, and every other bit still set.
\<close>

theorem recreate_rerecords_every_image:
  assumes "windows prt wid = Some window" and "canvases prt wid = Some canvas"
    and "cv_recorder canvas = Some r" and "DVZ_MAX_FRAMES_IN_FLIGHT E \<noteq> 0"
    and "obj_status (swapchain (dvz_swapchain_acquire E canvas)) = DVZ_OBJECT_STATUS_NEED_RECREATE"
  shows "\<exists>prt' canvas' r'.
           dvz_presenter_frame E prt wid =
             Inr (prt',
               [FencesWait wid fences_render_finished
                  ((cur_frame canvas + 1) mod DVZ_MAX_FRAMES_IN_FLIGHT E),
                SwapchainAcquire wid sem_img_available (cur_frame canvas),
                GpuWait, WindowPollSize wid, CanvasRecreate wid,
                SemaphoresRecreate wid sem_img_available,
                SemaphoresRecreate wid sem_render_finished]
               @ (case guis prt wid of
                    None \<Rightarrow> []
                  | Some g \<Rightarrow> [GuiWindowResize (gw_obj_id g)
                      (cv_width (dvz_canvas_recreate E (dvz_swapchain_acquire E canvas)))
                      (cv_height (dvz_canvas_recreate E (dvz_swapchain_acquire E canvas)))])
               @ [ClientEvent (DVZ_CLIENT_EVENT_WINDOW_RESIZE wid
                     (cv_width (dvz_canvas_recreate E (dvz_swapchain_acquire E canvas)))
                     (cv_height (dvz_canvas_recreate E (dvz_swapchain_acquire E canvas)))
                     (win_width (window_poll_size E window))
                     (win_height (window_poll_size E window))),
                  RecorderSetDirty wid]
               @ concat (map
                    (\<lambda>i. if rec_count r > 0
                         then [CmdReset wid i, RecorderSet wid i]
                         else [CmdReset wid i, BlankCommands wid i, RecorderSet wid i])
                    (map word_of_nat [0 ..< unat (cmds_count
                       (dvz_canvas_recreate E (dvz_swapchain_acquire E canvas)))]))
               @ [TransfersFrame (img_idx (swapchain
                    (dvz_canvas_recreate E (dvz_swapchain_acquire E canvas))))])
           \<and> (\<forall>i. rec_dirty (dvz_recorder_set_dirty r) i)
           \<and> canvases prt' wid = Some canvas' \<and> cv_recorder canvas' = Some r'
           \<and> cmds_count canvas'
               = cmds_count (dvz_canvas_recreate E (dvz_swapchain_acquire E canvas))
           \<and> (\<forall>i. rec_dirty r' i = (\<not> i < cmds_count canvas'))"
proof -
  let ?c = "dvz_canvas_recreate E (dvz_swapchain_acquire E canvas)"
  let ?r' = "record_all (dvz_recorder_set_dirty r) (cmds_indices ?c)"
  let ?c' = "?c\<lparr>cv_recorder := Some ?r'\<rparr>"
  let ?prt' = "prt\<lparr>windows := (windows prt)(wid \<mapsto> window_poll_size E window),
                   canvases := (canvases prt)(wid \<mapsto> ?c')\<rparr>"
  have calls: "refill_calls wid r =
      (\<lambda>i. if rec_count r > 0 then [CmdReset wid i, RecorderSet wid i]
           else [CmdReset wid i, BlankCommands wid i, RecorderSet wid i])"
    by (rule ext) (simp add: refill_calls_def)
  note eq = frame_need_recreate [OF assms, unfolded calls, unfolded cmds_indices_def]
  have all: "\<forall>i. rec_dirty (dvz_recorder_set_dirty r) i"
    by (simp add: dvz_recorder_set_dirty_def)
  have st: "canvases ?prt' wid = Some ?c'" "cv_recorder ?c' = Some ?r'"
    "cmds_count ?c' = cmds_count ?c"
    by simp_all
  have bits: "\<forall>i. rec_dirty ?r' i = (\<not> i < cmds_count ?c')"
    using all by (simp add: record_all_dirty cmds_indices_set)
  show ?thesis
    using eq all st bits unfolding cmds_indices_def by blast
qed

theorem recreate_rerecords_every_image_witness:
  "windows (example_prt DVZ_OBJECT_STATUS_NEED_RECREATE 0 example_callbacks) 1
       = Some example_window
   \<and> canvases (example_prt DVZ_OBJECT_STATUS_NEED_RECREATE 0 example_callbacks) 1
       = Some (example_canvas DVZ_OBJECT_STATUS_NEED_RECREATE 0)
   \<and> cv_recorder (example_canvas DVZ_OBJECT_STATUS_NEED_RECREATE 0) = Some (example_recorder 0)
   \<and> DVZ_MAX_FRAMES_IN_FLIGHT example_env \<noteq> 0
   \<and> obj_status (swapchain (dvz_swapchain_acquire example_env
         (example_canvas DVZ_OBJECT_STATUS_NEED_RECREATE 0))) = DVZ_OBJECT_STATUS_NEED_RECREATE
   \<and> (\<exists>prt' canvas' r'.
         dvz_presenter_frame example_env
           (example_prt DVZ_OBJECT_STATUS_NEED_RECREATE 0 example_callbacks) 1
           = Inr (prt',
               [FencesWait 1 fences_render_finished 1, SwapchainAcquire 1 sem_img_available 0,
                GpuWait, WindowPollSize 1, CanvasRecreate 1,
                SemaphoresRecreate 1 sem_img_available, SemaphoresRecreate 1 sem_render_finished,
                GuiWindowResize 1 2048 1536,
                ClientEvent (DVZ_CLIENT_EVENT_WINDOW_RESIZE 1 2048 1536 1024 768),
                RecorderSetDirty 1,
                CmdReset 1 0, BlankCommands 1 0, RecorderSet 1 0,
                CmdReset 1 1, BlankCommands 1 1, RecorderSet 1 1,
                CmdReset 1 2, BlankCommands 1 2, RecorderSet 1 2,
                TransfersFrame 1])
         \<and> canvases prt' 1 = Some canvas' \<and> cv_recorder canvas' = Some r'
         \<and> cmds_count canvas' = 3
         \<and> \<not> rec_dirty r' 0 \<and> \<not> rec_dirty r' 1 \<and> \<not> rec_dirty r' 2 \<and> rec_dirty r' 3)"
proof -
  let ?P = "example_prt DVZ_OBJECT_STATUS_NEED_RECREATE 0 example_callbacks"
  let ?C = "example_canvas DVZ_OBJECT_STATUS_NEED_RECREATE 0"
  have h1: "windows ?P 1 = Some example_window" and h2: "canvases ?P 1 = Some ?C"
    and h3: "cv_recorder ?C = Some (example_recorder 0)"
    by (simp_all add: example_prt_def example_canvas_def)
  have h4: "DVZ_MAX_FRAMES_IN_FLIGHT example_env \<noteq> 0"
    by (simp add: example_env_def)
  have h5: "obj_status (swapchain (dvz_swapchain_acquire example_env ?C))
              = DVZ_OBJECT_STATUS_NEED_RECREATE"
    by (simp add: example_defs)
  have n: "cmds_count (dvz_canvas_recreate example_env
                (dvz_swapchain_acquire example_env ?C)) = 3"
    by (simp add: example_defs)
  have v: "cur_frame ?C = 0" "(0 + 1) mod DVZ_MAX_FRAMES_IN_FLIGHT example_env = 1"
    "guis ?P 1 = Some \<lparr>gw_obj_id = 1\<rparr>"
    "cv_width (dvz_canvas_recreate example_env (dvz_swapchain_acquire example_env ?C)) = 2048"
    "cv_height (dvz_canvas_recreate example_env (dvz_swapchain_acquire example_env ?C)) = 1536"
    "win_width (window_poll_size example_env example_window) = 1024"
    "win_height (window_poll_size example_env example_window) = 768"
    "img_idx (swapchain (dvz_canvas_recreate example_env
                (dvz_swapchain_acquire example_env ?C))) = 1"
    "rec_count (example_recorder 0) = 0"
    "map word_of_nat [0 ..< unat (3 :: uint32)] = [0, 1, 2 :: uint32]"
    by (simp_all add: example_defs upt_rec)
  from recreate_rerecords_every_image [OF h1 h2 h3 h4 h5]
  obtain prt' canvas' r' where
    fr: "dvz_presenter_frame example_env ?P 1
           = Inr (prt',
               [FencesWait 1 fences_render_finished 1, SwapchainAcquire 1 sem_img_available 0,
                GpuWait, WindowPollSize 1, CanvasRecreate 1,
                SemaphoresRecreate 1 sem_img_available, SemaphoresRecreate 1 sem_render_finished,
                GuiWindowResize 1 2048 1536,
                ClientEvent (DVZ_CLIENT_EVENT_WINDOW_RESIZE 1 2048 1536 1024 768),
                RecorderSetDirty 1,
                CmdReset 1 0, BlankCommands 1 0, RecorderSet 1 0,
                CmdReset 1 1, BlankCommands 1 1, RecorderSet 1 1,
                CmdReset 1 2, BlankCommands 1 2, RecorderSet 1 2,
                TransfersFrame 1])"
    and st: "canvases prt' 1 = Some canvas'" "cv_recorder canvas' = Some r'"
      "cmds_count canvas' = 3"
    and bits: "\<forall>i. rec_dirty r' i = (\<not> i < cmds_count canvas')"
    unfolding n v by auto
  have "\<not> rec_dirty r' 0" "\<not> rec_dirty r' 1" "\<not> rec_dirty r' 2" "rec_dirty r' 3"
    using bits st(3) by simp_all
  with fr st show ?thesis
    using h1 h2 h3 h4 h5 by blast
qed

subsection \<open>C4: the resize notification\<close>

text \<open>
  C4: every swapchain recreation (the NeedsRecreate branch) emits exactly one resize
  notification to the client, carrying the surface id, the framebuffer width and height
  of the recreated canvas and the screen width and height polled from the window; no
  other tick emits this notification.

  A tick on a live surface returns, and the events it gives to \<^verbatim>\<open>dvz_client_event\<close> are
  that one resize event when the status after the acquisition is NeedsRecreate, and none
  otherwise.
\<close>

theorem resize_event_iff_recreate:
  assumes "windows prt wid = Some window" and "canvases prt wid = Some canvas"
    and "cv_recorder canvas = Some r" and "DVZ_MAX_FRAMES_IN_FLIGHT E \<noteq> 0"
    and "DVZ_MAX_TIMESTAMPS E \<noteq> 0"
  shows "\<exists>prt' tr.
           dvz_presenter_frame E prt wid = Inr (prt', tr)
           \<and> client_events tr =
               (if obj_status (swapchain (dvz_swapchain_acquire E canvas))
                     = DVZ_OBJECT_STATUS_NEED_RECREATE
                then [DVZ_CLIENT_EVENT_WINDOW_RESIZE wid
                        (cv_width (dvz_canvas_recreate E (dvz_swapchain_acquire E canvas)))
                        (cv_height (dvz_canvas_recreate E (dvz_swapchain_acquire E canvas)))
                        (win_width (window_poll_size E window))
                        (win_height (window_poll_size E window))]
                else [])"
proof -
  note live = assms(1-4)
  consider
      (invalid) "obj_status (swapchain (dvz_swapchain_acquire E canvas)) = DVZ_OBJECT_STATUS_INVALID"
    | (recreate) "obj_status (swapchain (dvz_swapchain_acquire E canvas)) = DVZ_OBJECT_STATUS_NEED_RECREATE"
    | (ready) "obj_status (swapchain (dvz_swapchain_acquire E canvas)) \<noteq> DVZ_OBJECT_STATUS_INVALID"
        "obj_status (swapchain (dvz_swapchain_acquire E canvas)) \<noteq> DVZ_OBJECT_STATUS_NEED_RECREATE"
    by blast
  then show ?thesis
  proof cases
    case invalid
    show ?thesis
      unfolding frame_invalid [OF live invalid] using invalid by (simp add: trace_simps)
  next
    case recreate
    show ?thesis
      unfolding frame_need_recreate [OF live recreate] using recreate
      by (simp add: trace_simps refill_client_events split: option.splits)
  next
    case ready
    show ?thesis
      unfolding frame_ready [OF live assms(5) ready] using ready
      by (simp add: trace_simps gui_callback_def refill_calls_def
            callback_calls_client_events split: option.splits)
  qed
qed

theorem resize_event_iff_recreate_witness:
  "windows (example_prt DVZ_OBJECT_STATUS_NEED_RECREATE 2 example_callbacks) 1
       = Some example_window
   \<and> canvases (example_prt DVZ_OBJECT_STATUS_NEED_RECREATE 2 example_callbacks) 1
       = Some (example_canvas DVZ_OBJECT_STATUS_NEED_RECREATE 2)
   \<and> cv_recorder (example_canvas DVZ_OBJECT_STATUS_NEED_RECREATE 2) = Some (example_recorder 2)
   \<and> DVZ_MAX_FRAMES_IN_FLIGHT example_env \<noteq> 0
   \<and> DVZ_MAX_TIMESTAMPS example_env \<noteq> 0
   \<and> (\<exists>prt' tr.
         dvz_presenter_frame example_env
           (example_prt DVZ_OBJECT_STATUS_NEED_RECREATE 2 example_callbacks) 1 = Inr (prt', tr)
         \<and> client_events tr = [DVZ_CLIENT_EVENT_WINDOW_RESIZE 1 2048 1536 1024 768])
   \<and> (\<exists>prt' tr.
         dvz_presenter_frame example_env
           (example_prt (DVZ_OBJECT_STATUS_OTHER 0) 2 example_callbacks) 1 = Inr (prt', tr)
         \<and> client_events tr = [])"
proof -
  let ?P = "example_prt DVZ_OBJECT_STATUS_NEED_RECREATE 2 example_callbacks"
  let ?C = "example_canvas DVZ_OBJECT_STATUS_NEED_RECREATE 2"
  let ?P' = "example_prt (DVZ_OBJECT_STATUS_OTHER 0) 2 example_callbacks"
  let ?C' = "example_canvas (DVZ_OBJECT_STATUS_OTHER 0) 2"
  have h1: "windows ?P 1 = Some example_window" and h2: "canvases ?P 1 = Some ?C"
    and h3: "cv_recorder ?C = Some (example_recorder 2)"
    and h1': "windows ?P' 1 = Some example_window" and h2': "canvases ?P' 1 = Some ?C'"
    and h3': "cv_recorder ?C' = Some (example_recorder 2)"
    by (simp_all add: example_prt_def example_canvas_def)
  have h4: "DVZ_MAX_FRAMES_IN_FLIGHT example_env \<noteq> 0"
    and h5: "DVZ_MAX_TIMESTAMPS example_env \<noteq> 0"
    by (simp_all add: example_env_def)
  have v: "(if obj_status (swapchain (dvz_swapchain_acquire example_env ?C))
                     = DVZ_OBJECT_STATUS_NEED_RECREATE
            then [DVZ_CLIENT_EVENT_WINDOW_RESIZE 1
                    (cv_width (dvz_canvas_recreate example_env (dvz_swapchain_acquire example_env ?C)))
                    (cv_height (dvz_canvas_recreate example_env (dvz_swapchain_acquire example_env ?C)))
                    (win_width (window_poll_size example_env example_window))
                    (win_height (window_poll_size example_env example_window))]
            else []) = [DVZ_CLIENT_EVENT_WINDOW_RESIZE 1 2048 1536 1024 768]"
    by (simp add: example_defs)
  have v': "(if obj_status (swapchain (dvz_swapchain_acquire example_env ?C'))
                     = DVZ_OBJECT_STATUS_NEED_RECREATE
            then [DVZ_CLIENT_EVENT_WINDOW_RESIZE 1
                    (cv_width (dvz_canvas_recreate example_env (dvz_swapchain_acquire example_env ?C')))
                    (cv_height (dvz_canvas_recreate example_env (dvz_swapchain_acquire example_env ?C')))
                    (win_width (window_poll_size example_env example_window))
                    (win_height (window_poll_size example_env example_window))]
            else []) = []"
    by (simp add: example_defs)
  from resize_event_iff_recreate [OF h1 h2 h3 h4 h5]
  have c1: "\<exists>prt' tr. dvz_presenter_frame example_env ?P 1 = Inr (prt', tr)
         \<and> client_events tr = [DVZ_CLIENT_EVENT_WINDOW_RESIZE 1 2048 1536 1024 768]"
    unfolding v .
  from resize_event_iff_recreate [OF h1' h2' h3' h4 h5]
  have c2: "\<exists>prt' tr. dvz_presenter_frame example_env ?P' 1 = Inr (prt', tr)
         \<and> client_events tr = []"
    unfolding v' .
  show ?thesis
    using h1 h2 h3 h4 h5 c1 c2 by blast
qed

subsection \<open>C5: which overlay callbacks a tick calls\<close>

text \<open>
  C5: in a tick of a surface that reaches the overlay composition, exactly the
  registered callbacks whose window id equals the surface's id are called, in
  registration order, each with the surface's GUI window and its own user data; callbacks
  registered for other ids are not called. Registration appends unconditionally, so one
  id may collect any number of entries.

  First part: a tick on a live surface in the Ready branch, with a GUI window stored
  under the surface's id and a non-empty callback list, returns, and the GUI callbacks
  it calls are the payloads of \<^verbatim>\<open>prt->callbacks\<close> whose window id is the surface's, in
  list order, each with that GUI window and the payload's user data. The comparison in
  \<^verbatim>\<open>_gui_callback\<close> is with \<^verbatim>\<open>gui_window->obj.id\<close>, which \<^verbatim>\<open>_create_canvas\<close> sets to the
  id the GUI window is stored under (lemma \<open>create_canvas_gui_window_id\<close>).
  Second part: \<^verbatim>\<open>dvz_presenter_gui\<close>, called within its contract (a non-zero window id
  and a non-null callback, both asserted), appends one payload at the end of the list,
  whatever the list already holds.
\<close>

theorem overlay_callbacks_by_window_id:
  "(windows prt wid = Some window \<and> canvases prt wid = Some canvas
    \<and> cv_recorder canvas = Some r \<and> DVZ_MAX_FRAMES_IN_FLIGHT E \<noteq> 0
    \<and> DVZ_MAX_TIMESTAMPS E \<noteq> 0
    \<and> obj_status (swapchain (dvz_swapchain_acquire E canvas)) \<noteq> DVZ_OBJECT_STATUS_INVALID
    \<and> obj_status (swapchain (dvz_swapchain_acquire E canvas)) \<noteq> DVZ_OBJECT_STATUS_NEED_RECREATE
    \<and> guis prt wid = Some g \<and> gw_obj_id g = wid \<and> callbacks prt \<noteq> []
    \<longrightarrow> (\<exists>prt' tr. dvz_presenter_frame E prt wid = Inr (prt', tr)
          \<and> gui_calls tr = map (\<lambda>p. (pl_callback p, wid, pl_user_data p))
                             (filter (\<lambda>p. pl_window_id p = wid) (callbacks prt))))
   \<and> (wid \<noteq> 0
    \<longrightarrow> dvz_presenter_gui prt wid (Some cb) ud =
          Inr (prt\<lparr>callbacks := callbacks prt
                 @ [\<lparr>pl_window_id = wid, pl_callback = cb, pl_user_data = ud\<rparr>]\<rparr>,
               [ListAppendCallback \<lparr>pl_window_id = wid, pl_callback = cb, pl_user_data = ud\<rparr>]))"
proof (intro conjI impI)
  assume a: "windows prt wid = Some window \<and> canvases prt wid = Some canvas
    \<and> cv_recorder canvas = Some r \<and> DVZ_MAX_FRAMES_IN_FLIGHT E \<noteq> 0
    \<and> DVZ_MAX_TIMESTAMPS E \<noteq> 0
    \<and> obj_status (swapchain (dvz_swapchain_acquire E canvas)) \<noteq> DVZ_OBJECT_STATUS_INVALID
    \<and> obj_status (swapchain (dvz_swapchain_acquire E canvas)) \<noteq> DVZ_OBJECT_STATUS_NEED_RECREATE
    \<and> guis prt wid = Some g \<and> gw_obj_id g = wid \<and> callbacks prt \<noteq> []"
  then have live: "windows prt wid = Some window" "canvases prt wid = Some canvas"
    "cv_recorder canvas = Some r" "DVZ_MAX_FRAMES_IN_FLIGHT E \<noteq> 0" "DVZ_MAX_TIMESTAMPS E \<noteq> 0"
    "obj_status (swapchain (dvz_swapchain_acquire E canvas)) \<noteq> DVZ_OBJECT_STATUS_INVALID"
    "obj_status (swapchain (dvz_swapchain_acquire E canvas)) \<noteq> DVZ_OBJECT_STATUS_NEED_RECREATE"
    and g: "guis prt wid = Some g" "gw_obj_id g = wid" "callbacks prt \<noteq> []"
    by simp_all
  have refill: "gui_calls (refill_calls wid r i) = []" for i
    by (simp add: refill_calls_def trace_simps)
  show "\<exists>prt' tr. dvz_presenter_frame E prt wid = Inr (prt', tr)
          \<and> gui_calls tr = map (\<lambda>p. (pl_callback p, wid, pl_user_data p))
                             (filter (\<lambda>p. pl_window_id p = wid) (callbacks prt))"
    unfolding frame_ready [OF live] using g
    by (simp add: trace_simps gui_callback_def refill callback_calls_gui_calls)
next
  assume "wid \<noteq> 0"
  then show "dvz_presenter_gui prt wid (Some cb) ud =
          Inr (prt\<lparr>callbacks := callbacks prt
                 @ [\<lparr>pl_window_id = wid, pl_callback = cb, pl_user_data = ud\<rparr>]\<rparr>,
               [ListAppendCallback \<lparr>pl_window_id = wid, pl_callback = cb, pl_user_data = ud\<rparr>])"
    by (simp add: dvz_presenter_gui_def Let_def)
qed

theorem overlay_callbacks_by_window_id_witness:
  "windows (example_prt (DVZ_OBJECT_STATUS_OTHER 0) 0 example_callbacks) 1 = Some example_window
   \<and> canvases (example_prt (DVZ_OBJECT_STATUS_OTHER 0) 0 example_callbacks) 1
       = Some (example_canvas (DVZ_OBJECT_STATUS_OTHER 0) 0)
   \<and> cv_recorder (example_canvas (DVZ_OBJECT_STATUS_OTHER 0) 0) = Some (example_recorder 0)
   \<and> guis (example_prt (DVZ_OBJECT_STATUS_OTHER 0) 0 example_callbacks) 1 = Some \<lparr>gw_obj_id = 1\<rparr>
   \<and> callbacks (example_prt (DVZ_OBJECT_STATUS_OTHER 0) 0 example_callbacks) \<noteq> []
   \<and> (\<exists>prt' tr.
         dvz_presenter_frame example_env
           (example_prt (DVZ_OBJECT_STATUS_OTHER 0) 0 example_callbacks) 1 = Inr (prt', tr)
         \<and> gui_calls tr = [(user_callback 10, 1, ptr_user 100),
                           (user_callback 11, 1, ptr_user 101),
                           (user_callback 12, 1, ptr_user 102)])
   \<and> (\<exists>prt'.
         dvz_presenter_gui (example_prt (DVZ_OBJECT_STATUS_OTHER 0) 0 example_callbacks) 1
           (Some (user_callback 10)) (ptr_user 100)
           = Inr (prt', [ListAppendCallback
               \<lparr>pl_window_id = 1, pl_callback = user_callback 10, pl_user_data = ptr_user 100\<rparr>])
         \<and> callbacks prt' = example_callbacks
             @ [\<lparr>pl_window_id = 1, pl_callback = user_callback 10, pl_user_data = ptr_user 100\<rparr>])"
proof -
  let ?P = "example_prt (DVZ_OBJECT_STATUS_OTHER 0) 0 example_callbacks"
  let ?C = "example_canvas (DVZ_OBJECT_STATUS_OTHER 0) 0"
  have h: "windows ?P 1 = Some example_window" "canvases ?P 1 = Some ?C"
    "cv_recorder ?C = Some (example_recorder 0)"
    "guis ?P 1 = Some \<lparr>gw_obj_id = 1\<rparr>" "callbacks ?P \<noteq> []"
    by (simp_all add: example_prt_def example_canvas_def example_callbacks_def)
  have e: "DVZ_MAX_FRAMES_IN_FLIGHT example_env \<noteq> 0" "DVZ_MAX_TIMESTAMPS example_env \<noteq> 0"
    "obj_status (swapchain (dvz_swapchain_acquire example_env ?C)) \<noteq> DVZ_OBJECT_STATUS_INVALID"
    "obj_status (swapchain (dvz_swapchain_acquire example_env ?C))
       \<noteq> DVZ_OBJECT_STATUS_NEED_RECREATE"
    "gw_obj_id \<lparr>gw_obj_id = 1\<rparr> = (1 :: DvzId)" "(1 :: DvzId) \<noteq> 0"
    by (simp_all add: example_defs)
  have v: "callbacks ?P = example_callbacks"
    by (simp add: example_prt_def)
  have w: "map (\<lambda>p. (pl_callback p, 1 :: DvzId, pl_user_data p))
             (filter (\<lambda>p. pl_window_id p = 1) example_callbacks)
           = [(user_callback 10, 1, ptr_user 100), (user_callback 11, 1, ptr_user 101),
              (user_callback 12, 1, ptr_user 102)]"
    by (simp add: example_callbacks_def)
  from overlay_callbacks_by_window_id
    [of ?P 1 example_window ?C "example_recorder 0" example_env "\<lparr>gw_obj_id = 1\<rparr>"
        "user_callback 10" "ptr_user 100"]
    h e
  have "(\<exists>prt' tr. dvz_presenter_frame example_env ?P 1 = Inr (prt', tr)
          \<and> gui_calls tr = map (\<lambda>p. (pl_callback p, 1, pl_user_data p))
                             (filter (\<lambda>p. pl_window_id p = 1) (callbacks ?P)))"
    and "dvz_presenter_gui ?P 1 (Some (user_callback 10)) (ptr_user 100) =
          Inr (?P\<lparr>callbacks := callbacks ?P
                 @ [\<lparr>pl_window_id = 1, pl_callback = user_callback 10,
                     pl_user_data = ptr_user 100\<rparr>]\<rparr>,
               [ListAppendCallback \<lparr>pl_window_id = 1, pl_callback = user_callback 10,
                     pl_user_data = ptr_user 100\<rparr>])"
    by blast+
  then have c1: "\<exists>prt' tr. dvz_presenter_frame example_env ?P 1 = Inr (prt', tr)
         \<and> gui_calls tr = [(user_callback 10, 1, ptr_user 100),
                           (user_callback 11, 1, ptr_user 101),
                           (user_callback 12, 1, ptr_user 102)]"
    and c2: "\<exists>prt'. dvz_presenter_gui ?P 1 (Some (user_callback 10)) (ptr_user 100)
           = Inr (prt', [ListAppendCallback
               \<lparr>pl_window_id = 1, pl_callback = user_callback 10, pl_user_data = ptr_user 100\<rparr>])
         \<and> callbacks prt' = example_callbacks
             @ [\<lparr>pl_window_id = 1, pl_callback = user_callback 10, pl_user_data = ptr_user 100\<rparr>]"
    unfolding v w by simp_all
  show ?thesis
    using h c1 c2 by blast
qed

subsection \<open>C6: the built-in overlay callbacks of a new canvas\<close>

text \<open>
  C6: a Create request whose flags enable the overlay and both the frame-rate and the
  resource-usage sub-overlay registers exactly two built-in callback entries for the
  surface's id; with the overlay flag alone it registers none.

  The flag constants are defined in a header that is not among the sources and are
  parameters here. As the expressions \<^verbatim>\<open>DVZ_CANVAS_FLAGS_FPS ^ DVZ_CANVAS_FLAGS_IMGUI\<close> and
  \<^verbatim>\<open>DVZ_CANVAS_FLAGS_MONITOR ^ DVZ_CANVAS_FLAGS_IMGUI\<close> of the source suggest, each
  sub-overlay flag is taken to contain the bits of the overlay flag and at least one bit
  of its own. The creation is taken within its contract: the renderer has the canvas, the
  screen size is positive, the swapchain is created, the presenter has a GUI, and the id
  is not 0. Then the creation returns, and the callback list is the old one followed by
  the frame-rate entry and the monitoring entry when the flags contain both sub-overlay
  flags, and is the old one when, of the bits of the three flags, the request has just
  those of the overlay flag.
\<close>

theorem create_registers_builtin_callbacks:
  assumes "canvases prt (req_id req) = Some canvas"
    and "0 < screen_width req" and "0 < screen_height req"
    and "obj_is_created E (obj_status (swapchain (dvz_canvas_create E
           (canvas\<lparr>cv_width := framebuffer_width
                       (client_window E (req_id req) (screen_width req) (screen_height req)),
                   cv_height := framebuffer_height
                       (client_window E (req_id req) (screen_width req) (screen_height req))\<rparr>))))"
    and "prt_gui prt" and "req_id req \<noteq> 0"
    and "DVZ_CANVAS_FLAGS_IMGUI E \<noteq> 0"
    and "DVZ_CANVAS_FLAGS_FPS E AND DVZ_CANVAS_FLAGS_IMGUI E = DVZ_CANVAS_FLAGS_IMGUI E"
    and "DVZ_CANVAS_FLAGS_FPS E \<noteq> DVZ_CANVAS_FLAGS_IMGUI E"
    and "DVZ_CANVAS_FLAGS_MONITOR E AND DVZ_CANVAS_FLAGS_IMGUI E = DVZ_CANVAS_FLAGS_IMGUI E"
    and "DVZ_CANVAS_FLAGS_MONITOR E \<noteq> DVZ_CANVAS_FLAGS_IMGUI E"
  shows "(req_flags req AND DVZ_CANVAS_FLAGS_FPS E = DVZ_CANVAS_FLAGS_FPS E
          \<and> req_flags req AND DVZ_CANVAS_FLAGS_MONITOR E = DVZ_CANVAS_FLAGS_MONITOR E
          \<longrightarrow> (\<exists>prt' tr. create_canvas E prt req = Inr (prt', tr)
                \<and> callbacks prt' = callbacks prt
                    @ [\<lparr>pl_window_id = req_id req, pl_callback = gui_callback_fps,
                        pl_user_data = ptr_prt_fps\<rparr>,
                       \<lparr>pl_window_id = req_id req, pl_callback = gui_callback_monitoring,
                        pl_user_data = ptr_ctx_datalloc\<rparr>]))
       \<and> (req_flags req AND (DVZ_CANVAS_FLAGS_FPS E OR DVZ_CANVAS_FLAGS_MONITOR E)
            = DVZ_CANVAS_FLAGS_IMGUI E
          \<longrightarrow> (\<exists>prt' tr. create_canvas E prt req = Inr (prt', tr)
                \<and> callbacks prt' = callbacks prt))"
proof (intro conjI impI)
  assume both: "req_flags req AND DVZ_CANVAS_FLAGS_FPS E = DVZ_CANVAS_FLAGS_FPS E
          \<and> req_flags req AND DVZ_CANVAS_FLAGS_MONITOR E = DVZ_CANVAS_FLAGS_MONITOR E"
  have gui: "req_flags req AND DVZ_CANVAS_FLAGS_IMGUI E \<noteq> 0"
    using flags_gui [OF assms(8) assms(7)] both by blast
  have fps: "req_flags req AND (DVZ_CANVAS_FLAGS_FPS E XOR DVZ_CANVAS_FLAGS_IMGUI E) \<noteq> 0"
    using flags_sub_set [OF assms(8) assms(9)] both by blast
  have mon: "req_flags req AND (DVZ_CANVAS_FLAGS_MONITOR E XOR DVZ_CANVAS_FLAGS_IMGUI E) \<noteq> 0"
    using flags_sub_set [OF assms(10) assms(11)] both by blast
  show "\<exists>prt' tr. create_canvas E prt req = Inr (prt', tr)
                \<and> callbacks prt' = callbacks prt
                    @ [\<lparr>pl_window_id = req_id req, pl_callback = gui_callback_fps,
                        pl_user_data = ptr_prt_fps\<rparr>,
                       \<lparr>pl_window_id = req_id req, pl_callback = gui_callback_monitoring,
                        pl_user_data = ptr_ctx_datalloc\<rparr>]"
    using assms(1-6) gui fps mon
    by (simp add: create_canvas_def Let_def bind_result_def dvz_presenter_gui_def)
next
  assume only: "req_flags req AND (DVZ_CANVAS_FLAGS_FPS E OR DVZ_CANVAS_FLAGS_MONITOR E)
            = DVZ_CANVAS_FLAGS_IMGUI E"
  have fps: "req_flags req AND (DVZ_CANVAS_FLAGS_FPS E XOR DVZ_CANVAS_FLAGS_IMGUI E) = 0"
    using flags_sub_clear [OF assms(8) only] .
  have mon: "req_flags req AND (DVZ_CANVAS_FLAGS_MONITOR E XOR DVZ_CANVAS_FLAGS_IMGUI E) = 0"
    using flags_sub_clear' [OF assms(10) only] .
  show "\<exists>prt' tr. create_canvas E prt req = Inr (prt', tr) \<and> callbacks prt' = callbacks prt"
    using assms(1-6) fps mon
    by (simp add: create_canvas_def Let_def bind_result_def dvz_presenter_gui_def)
qed

theorem create_registers_builtin_callbacks_witness:
  "canvases (example_prt DVZ_OBJECT_STATUS_INVALID 0 example_callbacks) (req_id (example_request 7))
     = Some (example_canvas DVZ_OBJECT_STATUS_INVALID 0)
   \<and> 0 < screen_width (example_request 7) \<and> 0 < screen_height (example_request 7)
   \<and> prt_gui (example_prt DVZ_OBJECT_STATUS_INVALID 0 example_callbacks)
   \<and> req_id (example_request 7) \<noteq> 0
   \<and> req_flags (example_request 7) AND DVZ_CANVAS_FLAGS_FPS example_env
        = DVZ_CANVAS_FLAGS_FPS example_env
   \<and> req_flags (example_request 7) AND DVZ_CANVAS_FLAGS_MONITOR example_env
        = DVZ_CANVAS_FLAGS_MONITOR example_env
   \<and> (\<exists>prt' tr.
         create_canvas example_env (example_prt DVZ_OBJECT_STATUS_INVALID 0 example_callbacks)
           (example_request 7) = Inr (prt', tr)
         \<and> callbacks prt' = example_callbacks
             @ [\<lparr>pl_window_id = 1, pl_callback = gui_callback_fps, pl_user_data = ptr_prt_fps\<rparr>,
                \<lparr>pl_window_id = 1, pl_callback = gui_callback_monitoring,
                 pl_user_data = ptr_ctx_datalloc\<rparr>])
   \<and> req_flags (example_request 9)
        AND (DVZ_CANVAS_FLAGS_FPS example_env OR DVZ_CANVAS_FLAGS_MONITOR example_env)
        = DVZ_CANVAS_FLAGS_IMGUI example_env
   \<and> (\<exists>prt' tr.
         create_canvas example_env (example_prt DVZ_OBJECT_STATUS_INVALID 0 example_callbacks)
           (example_request 9) = Inr (prt', tr)
         \<and> callbacks prt' = example_callbacks)"
proof -
  let ?P = "example_prt DVZ_OBJECT_STATUS_INVALID 0 example_callbacks"
  let ?R = "example_request 7"
  let ?R' = "example_request 9"
  have h1': "canvases ?P (req_id ?R') = Some (example_canvas DVZ_OBJECT_STATUS_INVALID 0)"
    by (simp add: example_prt_def example_request_def)
  have h2': "0 < screen_width ?R'" and h3': "0 < screen_height ?R'" and h6': "req_id ?R' \<noteq> 0"
    by (simp_all add: example_request_def)
  have h4': "obj_is_created example_env (obj_status (swapchain (dvz_canvas_create example_env
           ((example_canvas DVZ_OBJECT_STATUS_INVALID 0)\<lparr>cv_width := framebuffer_width
                       (client_window example_env (req_id ?R') (screen_width ?R') (screen_height ?R')),
                   cv_height := framebuffer_height
                       (client_window example_env (req_id ?R') (screen_width ?R') (screen_height ?R'))\<rparr>))))"
    by (simp add: example_defs)
  have f': "req_flags ?R'
        AND (DVZ_CANVAS_FLAGS_FPS example_env OR DVZ_CANVAS_FLAGS_MONITOR example_env)
        = DVZ_CANVAS_FLAGS_IMGUI example_env"
    by (simp add: example_env_def example_request_def)
  have h1: "canvases ?P (req_id ?R) = Some (example_canvas DVZ_OBJECT_STATUS_INVALID 0)"
    by (simp add: example_prt_def example_request_def)
  have h2: "0 < screen_width ?R" and h3: "0 < screen_height ?R" and h6: "req_id ?R \<noteq> 0"
    by (simp_all add: example_request_def)
  have h4: "obj_is_created example_env (obj_status (swapchain (dvz_canvas_create example_env
           ((example_canvas DVZ_OBJECT_STATUS_INVALID 0)\<lparr>cv_width := framebuffer_width
                       (client_window example_env (req_id ?R) (screen_width ?R) (screen_height ?R)),
                   cv_height := framebuffer_height
                       (client_window example_env (req_id ?R) (screen_width ?R) (screen_height ?R))\<rparr>))))"
    by (simp add: example_defs)
  have h5: "prt_gui ?P" by (simp add: example_prt_def)
  have c: "DVZ_CANVAS_FLAGS_IMGUI example_env \<noteq> 0"
    "DVZ_CANVAS_FLAGS_FPS example_env AND DVZ_CANVAS_FLAGS_IMGUI example_env
       = DVZ_CANVAS_FLAGS_IMGUI example_env"
    "DVZ_CANVAS_FLAGS_FPS example_env \<noteq> DVZ_CANVAS_FLAGS_IMGUI example_env"
    "DVZ_CANVAS_FLAGS_MONITOR example_env AND DVZ_CANVAS_FLAGS_IMGUI example_env
       = DVZ_CANVAS_FLAGS_IMGUI example_env"
    "DVZ_CANVAS_FLAGS_MONITOR example_env \<noteq> DVZ_CANVAS_FLAGS_IMGUI example_env"
    by (simp_all add: example_env_def)
  have f: "req_flags ?R AND DVZ_CANVAS_FLAGS_FPS example_env = DVZ_CANVAS_FLAGS_FPS example_env"
    "req_flags ?R AND DVZ_CANVAS_FLAGS_MONITOR example_env = DVZ_CANVAS_FLAGS_MONITOR example_env"
    by (simp_all add: example_env_def example_request_def)
  have v: "callbacks ?P = example_callbacks" "req_id ?R = 1"
    by (simp_all add: example_prt_def example_request_def)
  from create_registers_builtin_callbacks [OF h1 h2 h3 h4 h5 h6 c] f
  have "\<exists>prt' tr. create_canvas example_env ?P ?R = Inr (prt', tr)
         \<and> callbacks prt' = callbacks ?P
             @ [\<lparr>pl_window_id = req_id ?R, pl_callback = gui_callback_fps, pl_user_data = ptr_prt_fps\<rparr>,
                \<lparr>pl_window_id = req_id ?R, pl_callback = gui_callback_monitoring,
                 pl_user_data = ptr_ctx_datalloc\<rparr>]"
    by blast
  then have concl: "\<exists>prt' tr. create_canvas example_env ?P ?R = Inr (prt', tr)
         \<and> callbacks prt' = example_callbacks
             @ [\<lparr>pl_window_id = 1, pl_callback = gui_callback_fps, pl_user_data = ptr_prt_fps\<rparr>,
                \<lparr>pl_window_id = 1, pl_callback = gui_callback_monitoring,
                 pl_user_data = ptr_ctx_datalloc\<rparr>]"
    unfolding v .
  from create_registers_builtin_callbacks [OF h1' h2' h3' h4' h5 h6' c] f'
  have "\<exists>prt' tr. create_canvas example_env ?P ?R' = Inr (prt', tr)
         \<and> callbacks prt' = callbacks ?P"
    by blast
  then have concl': "\<exists>prt' tr. create_canvas example_env ?P ?R' = Inr (prt', tr)
         \<and> callbacks prt' = example_callbacks"
    unfolding v .
  show ?thesis
    using h1 h2 h3 h5 h6 f concl f' concl' by blast
qed

subsection \<open>C7: a surface with nothing recorded\<close>

text \<open>
  C7 says that every tick of a surface whose recorder holds no cached command and whose
  acquired image is dirty records a blank command buffer for the acquired image and goes
  on through submission and presentation.

  This fails for a tick that does not take the Ready branch. On the example surface with
  an empty recorder, every image dirty and a swapchain that needs recreation (the state
  \<^verbatim>\<open>_create_canvas\<close> leaves a new canvas in), the tick records blank commands for the
  three images and returns without any submission or presentation.
\<close>

theorem recreate_tick_presents_nothing:
  "cv_recorder (example_canvas DVZ_OBJECT_STATUS_NEED_RECREATE 0) = Some (example_recorder 0)
   \<and> rec_count (example_recorder 0) = 0
   \<and> rec_dirty (example_recorder 0) 1
   \<and> img_idx (swapchain (dvz_swapchain_acquire example_env
        (example_canvas DVZ_OBJECT_STATUS_NEED_RECREATE 0))) = 1
   \<and> calls_of (dvz_presenter_frame example_env
        (example_prt DVZ_OBJECT_STATUS_NEED_RECREATE 0 []) 1)
     = [FencesWait 1 fences_render_finished 1, SwapchainAcquire 1 sem_img_available 0,
        GpuWait, WindowPollSize 1, CanvasRecreate 1,
        SemaphoresRecreate 1 sem_img_available, SemaphoresRecreate 1 sem_render_finished,
        GuiWindowResize 1 2048 1536,
        ClientEvent (DVZ_CLIENT_EVENT_WINDOW_RESIZE 1 2048 1536 1024 768),
        RecorderSetDirty 1,
        CmdReset 1 0, BlankCommands 1 0, RecorderSet 1 0,
        CmdReset 1 1, BlankCommands 1 1, RecorderSet 1 1,
        CmdReset 1 2, BlankCommands 1 2, RecorderSet 1 2,
        TransfersFrame 1]
   \<and> submit_sends (calls_of (dvz_presenter_frame example_env
        (example_prt DVZ_OBJECT_STATUS_NEED_RECREATE 0 []) 1)) = []
   \<and> presents (calls_of (dvz_presenter_frame example_env
        (example_prt DVZ_OBJECT_STATUS_NEED_RECREATE 0 []) 1)) = []"
  by (simp add: calls_of_def dvz_presenter_frame_def frame_recreate_def record_command_def
      cmds_indices_def example_defs trace_simps Let_def upt_rec)

text \<open>
  C7, amended: every tick that takes the Ready branch (the status after the acquisition
  is neither Invalid nor NeedsRecreate) of a live surface whose recorder holds no cached
  command and has the dirty bit of the acquired image set returns after exactly the
  calls below: fence wait, acquisition, timestamp, fence copy; reset of the acquired
  image's command buffer, blank commands into it, recording of it; reset of the submit
  and the canvas commands added to it; the GUI pass when there is a GUI window and a
  registered callback; then the wait and signal semaphores, the submission of the
  acquired image, the presentation and the notification of the transfers. So the blank
  buffer is recorded before the one submission and the one presentation of the tick, and
  the dirty bit of the acquired image is clear when the tick returns.
\<close>

theorem blank_frame_is_submitted_and_presented:
  assumes "windows prt wid = Some window" and "canvases prt wid = Some canvas"
    and "cv_recorder canvas = Some r" and "DVZ_MAX_FRAMES_IN_FLIGHT E \<noteq> 0"
    and "DVZ_MAX_TIMESTAMPS E \<noteq> 0"
    and "obj_status (swapchain (dvz_swapchain_acquire E canvas)) \<noteq> DVZ_OBJECT_STATUS_INVALID"
    and "obj_status (swapchain (dvz_swapchain_acquire E canvas)) \<noteq> DVZ_OBJECT_STATUS_NEED_RECREATE"
    and "rec_count r = 0"
    and "rec_dirty r (img_idx (swapchain (dvz_swapchain_acquire E canvas)))"
  shows "\<exists>prt' canvas' r'.
           dvz_presenter_frame E prt wid =
             Inr (prt',
               [FencesWait wid fences_render_finished
                  ((cur_frame canvas + 1) mod DVZ_MAX_FRAMES_IN_FLIGHT E),
                SwapchainAcquire wid sem_img_available (cur_frame canvas),
                Time wid (frame_time_idx canvas mod DVZ_MAX_TIMESTAMPS E),
                FencesCopy wid fences_render_finished (cur_frame canvas) fences_flight
                  (img_idx (swapchain (dvz_swapchain_acquire E canvas))),
                CmdReset wid (img_idx (swapchain (dvz_swapchain_acquire E canvas))),
                BlankCommands wid (img_idx (swapchain (dvz_swapchain_acquire E canvas))),
                RecorderSet wid (img_idx (swapchain (dvz_swapchain_acquire E canvas))),
                SubmitReset wid, SubmitCommands wid canvas_cmds]
               @ (case guis prt wid of
                    None \<Rightarrow> []
                  | Some g \<Rightarrow>
                      if callbacks prt = [] then []
                      else [GuiWindowBegin (gw_obj_id g)
                              (img_idx (swapchain (dvz_swapchain_acquire E canvas)))]
                           @ map (\<lambda>p. GuiCallbackCall (pl_callback p) (gw_obj_id g)
                                        (pl_user_data p))
                               (filter (\<lambda>p. pl_window_id p = gw_obj_id g) (callbacks prt))
                           @ [GuiWindowEnd (gw_obj_id g)
                                (img_idx (swapchain (dvz_swapchain_acquire E canvas))),
                              SubmitCommands wid gui_window_cmds])
               @ [SubmitWaitSemaphores wid sem_img_available (cur_frame canvas),
                  SubmitSignalSemaphores wid sem_render_finished (cur_frame canvas),
                  SubmitSend wid (img_idx (swapchain (dvz_swapchain_acquire E canvas)))
                    fences_render_finished (cur_frame canvas),
                  SwapchainPresent wid sem_render_finished (cur_frame canvas),
                  TransfersFrame (img_idx (swapchain (dvz_swapchain_acquire E canvas)))])
           \<and> canvases prt' wid = Some canvas' \<and> cv_recorder canvas' = Some r'
           \<and> \<not> rec_dirty r' (img_idx (swapchain (dvz_swapchain_acquire E canvas)))"
  unfolding frame_ready [OF assms(1-7)] using assms(8,9)
  by (simp add: refill_calls_def gui_callback_def callback_calls_filter dvz_recorder_set_def
      split: option.splits)

theorem blank_frame_is_submitted_and_presented_witness:
  "windows (example_prt (DVZ_OBJECT_STATUS_OTHER 0) 0 []) 1 = Some example_window
   \<and> canvases (example_prt (DVZ_OBJECT_STATUS_OTHER 0) 0 []) 1
       = Some (example_canvas (DVZ_OBJECT_STATUS_OTHER 0) 0)
   \<and> cv_recorder (example_canvas (DVZ_OBJECT_STATUS_OTHER 0) 0) = Some (example_recorder 0)
   \<and> DVZ_MAX_FRAMES_IN_FLIGHT example_env \<noteq> 0
   \<and> DVZ_MAX_TIMESTAMPS example_env \<noteq> 0
   \<and> obj_status (swapchain (dvz_swapchain_acquire example_env
         (example_canvas (DVZ_OBJECT_STATUS_OTHER 0) 0))) = DVZ_OBJECT_STATUS_OTHER 0
   \<and> rec_count (example_recorder 0) = 0
   \<and> rec_dirty (example_recorder 0) 1
   \<and> (\<exists>prt' canvas' r'.
         dvz_presenter_frame example_env (example_prt (DVZ_OBJECT_STATUS_OTHER 0) 0 []) 1
           = Inr (prt',
               [FencesWait 1 fences_render_finished 1, SwapchainAcquire 1 sem_img_available 0,
                Time 1 0, FencesCopy 1 fences_render_finished 0 fences_flight 1,
                CmdReset 1 1, BlankCommands 1 1, RecorderSet 1 1,
                SubmitReset 1, SubmitCommands 1 canvas_cmds,
                SubmitWaitSemaphores 1 sem_img_available 0,
                SubmitSignalSemaphores 1 sem_render_finished 0,
                SubmitSend 1 1 fences_render_finished 0,
                SwapchainPresent 1 sem_render_finished 0,
                TransfersFrame 1])
         \<and> canvases prt' 1 = Some canvas' \<and> cv_recorder canvas' = Some r'
         \<and> \<not> rec_dirty r' 1)"
proof -
  let ?P = "example_prt (DVZ_OBJECT_STATUS_OTHER 0) 0 []"
  let ?C = "example_canvas (DVZ_OBJECT_STATUS_OTHER 0) 0"
  have h1: "windows ?P 1 = Some example_window" and h2: "canvases ?P 1 = Some ?C"
    and h3: "cv_recorder ?C = Some (example_recorder 0)"
    by (simp_all add: example_prt_def example_canvas_def)
  have h4: "DVZ_MAX_FRAMES_IN_FLIGHT example_env \<noteq> 0"
    and h5: "DVZ_MAX_TIMESTAMPS example_env \<noteq> 0"
    by (simp_all add: example_env_def)
  have st: "obj_status (swapchain (dvz_swapchain_acquire example_env ?C))
              = DVZ_OBJECT_STATUS_OTHER 0"
    by (simp add: example_defs)
  have h6: "obj_status (swapchain (dvz_swapchain_acquire example_env ?C))
              \<noteq> DVZ_OBJECT_STATUS_INVALID"
    and h7: "obj_status (swapchain (dvz_swapchain_acquire example_env ?C))
              \<noteq> DVZ_OBJECT_STATUS_NEED_RECREATE"
    by (simp_all add: st)
  have img: "img_idx (swapchain (dvz_swapchain_acquire example_env ?C)) = 1"
    by (simp add: example_defs)
  have h8: "rec_count (example_recorder 0) = 0"
    and h9: "rec_dirty (example_recorder 0) 1"
    by (simp_all add: example_recorder_def)
  have h9': "rec_dirty (example_recorder 0)
               (img_idx (swapchain (dvz_swapchain_acquire example_env ?C)))"
    unfolding img by (rule h9)
  have v: "cur_frame ?C = 0" "callbacks ?P = []"
    "(0 + 1) mod DVZ_MAX_FRAMES_IN_FLIGHT example_env = 1"
    "frame_time_idx ?C mod DVZ_MAX_TIMESTAMPS example_env = 0"
    by (simp_all add: example_canvas_def example_prt_def example_env_def)
  from blank_frame_is_submitted_and_presented [OF h1 h2 h3 h4 h5 h6 h7 h8 h9']
  have concl: "\<exists>prt' canvas' r'.
         dvz_presenter_frame example_env ?P 1
           = Inr (prt',
               [FencesWait 1 fences_render_finished 1, SwapchainAcquire 1 sem_img_available 0,
                Time 1 0, FencesCopy 1 fences_render_finished 0 fences_flight 1,
                CmdReset 1 1, BlankCommands 1 1, RecorderSet 1 1,
                SubmitReset 1, SubmitCommands 1 canvas_cmds,
                SubmitWaitSemaphores 1 sem_img_available 0,
                SubmitSignalSemaphores 1 sem_render_finished 0,
                SubmitSend 1 1 fences_render_finished 0,
                SwapchainPresent 1 sem_render_finished 0,
                TransfersFrame 1])
         \<and> canvases prt' 1 = Some canvas' \<and> cv_recorder canvas' = Some r'
         \<and> \<not> rec_dirty r' 1"
    unfolding img v by (auto split: option.splits)
  show ?thesis
    using h1 h2 h3 h4 h5 st h8 h9 concl by blast
qed

subsection \<open>C8: the order of the teardown\<close>

text \<open>
  C8: deleting an existing surface first waits for the device to be idle, then destroys
  the canvas (the swapchain and what depends on it), then the recorder, then untracks
  and destroys the drawable surface, then destroys the GUI window bound to the id if
  there is one; the window itself is never destroyed by this call.

  For a canvas that has a recorder (every canvas \<^verbatim>\<open>_create_canvas\<close> has set up has one,
  lemma \<open>create_canvas_recorder\<close>), \<^verbatim>\<open>_delete_canvas\<close> returns after exactly these calls in
  this order, the surface is no longer tracked, the client's windows are untouched and
  \<^verbatim>\<open>dvz_window_destroy\<close> is not called.
\<close>

theorem delete_canvas_order:
  assumes "canvases prt cid = Some canvas" and "cv_recorder canvas = Some r"
  shows "\<exists>prt'.
           delete_canvas prt cid =
             Inr (prt', [GpuWait, CanvasDestroy cid, RecorderDestroy cid,
                         ListRemoveSurface cid, SurfaceDestroy cid]
                        @ (case guis prt cid of
                             None \<Rightarrow> []
                           | Some g \<Rightarrow> [GuiWindowDestroy (gw_obj_id g)]))
           \<and> surfaces prt' = remove1 cid (surfaces prt)
           \<and> windows prt' = windows prt
           \<and> window_destroys (calls_of (delete_canvas prt cid)) = []"
  using assms
  by (simp add: delete_canvas_def calls_of_def trace_simps split: option.splits)

theorem delete_canvas_order_witness:
  "canvases (example_prt (DVZ_OBJECT_STATUS_OTHER 0) 2 example_callbacks) 1
       = Some (example_canvas (DVZ_OBJECT_STATUS_OTHER 0) 2)
   \<and> cv_recorder (example_canvas (DVZ_OBJECT_STATUS_OTHER 0) 2) = Some (example_recorder 2)
   \<and> (\<exists>prt'.
         delete_canvas (example_prt (DVZ_OBJECT_STATUS_OTHER 0) 2 example_callbacks) 1
           = Inr (prt', [GpuWait, CanvasDestroy 1, RecorderDestroy 1,
                         ListRemoveSurface 1, SurfaceDestroy 1, GuiWindowDestroy 1])
         \<and> surfaces prt' = []
         \<and> windows prt' = [1 \<mapsto> example_window]
         \<and> window_destroys (calls_of (delete_canvas
               (example_prt (DVZ_OBJECT_STATUS_OTHER 0) 2 example_callbacks) 1)) = [])"
proof -
  let ?P = "example_prt (DVZ_OBJECT_STATUS_OTHER 0) 2 example_callbacks"
  let ?C = "example_canvas (DVZ_OBJECT_STATUS_OTHER 0) 2"
  have h1: "canvases ?P 1 = Some ?C" and h2: "cv_recorder ?C = Some (example_recorder 2)"
    by (simp_all add: example_prt_def example_canvas_def)
  have v: "[GpuWait, CanvasDestroy 1, RecorderDestroy 1, ListRemoveSurface 1, SurfaceDestroy 1]
             @ (case guis ?P 1 of None \<Rightarrow> [] | Some g \<Rightarrow> [GuiWindowDestroy (gw_obj_id g)])
           = [GpuWait, CanvasDestroy 1, RecorderDestroy 1, ListRemoveSurface 1,
              SurfaceDestroy 1, GuiWindowDestroy 1]"
    "remove1 1 (surfaces ?P) = []" "windows ?P = [1 \<mapsto> example_window]"
    by (simp_all add: example_prt_def)
  from delete_canvas_order [OF h1 h2]
  have concl: "\<exists>prt'.
         delete_canvas ?P 1
           = Inr (prt', [GpuWait, CanvasDestroy 1, RecorderDestroy 1,
                         ListRemoveSurface 1, SurfaceDestroy 1, GuiWindowDestroy 1])
         \<and> surfaces prt' = []
         \<and> windows prt' = [1 \<mapsto> example_window]
         \<and> window_destroys (calls_of (delete_canvas ?P 1)) = []"
    unfolding v .
  show ?thesis
    using h1 h2 concl by blast
qed

subsection \<open>C9: the overlay pass depends on the global callback list\<close>

text \<open>
  C9 says that in every tick of a surface with a bound GUI window the overlay recording
  runs, and the overlay command buffer is added to the submission, whenever the
  presenter's callback list is non-empty, even when no callback is registered for this
  surface.

  This fails for a tick that does not take the Ready branch: on the example surface,
  which has a GUI window and four registered callbacks, a tick that finds the swapchain
  in need of recreation opens no GUI recording and submits nothing.
\<close>

theorem recreate_tick_has_no_overlay_pass:
  "guis (example_prt DVZ_OBJECT_STATUS_NEED_RECREATE 2 example_callbacks) 1
     = Some \<lparr>gw_obj_id = 1\<rparr>
   \<and> length (callbacks (example_prt DVZ_OBJECT_STATUS_NEED_RECREATE 2 example_callbacks)) = 4
   \<and> calls_of (dvz_presenter_frame example_env
        (example_prt DVZ_OBJECT_STATUS_NEED_RECREATE 2 example_callbacks) 1)
     = [FencesWait 1 fences_render_finished 1, SwapchainAcquire 1 sem_img_available 0,
        GpuWait, WindowPollSize 1, CanvasRecreate 1,
        SemaphoresRecreate 1 sem_img_available, SemaphoresRecreate 1 sem_render_finished,
        GuiWindowResize 1 2048 1536,
        ClientEvent (DVZ_CLIENT_EVENT_WINDOW_RESIZE 1 2048 1536 1024 768),
        RecorderSetDirty 1,
        CmdReset 1 0, RecorderSet 1 0, CmdReset 1 1, RecorderSet 1 1,
        CmdReset 1 2, RecorderSet 1 2,
        TransfersFrame 1]
   \<and> overlay_passes (calls_of (dvz_presenter_frame example_env
        (example_prt DVZ_OBJECT_STATUS_NEED_RECREATE 2 example_callbacks) 1)) = []"
  by (simp add: calls_of_def dvz_presenter_frame_def frame_recreate_def record_command_def
      cmds_indices_def example_defs trace_simps Let_def upt_rec)

text \<open>
  C9, amended: in every tick that takes the Ready branch of a live surface with a bound
  GUI window, whenever the presenter's callback list is non-empty the tick returns and,
  right after the canvas commands are added to the submission, it opens the GUI
  recording for the acquired image, calls the callbacks registered for the GUI window's
  id (none, if no registered callback has that id), closes the recording and adds the
  GUI command buffer to the submission, which is then sent and presented. No other GUI
  recording is opened in the tick.
\<close>

theorem overlay_pass_follows_global_list:
  assumes "windows prt wid = Some window" and "canvases prt wid = Some canvas"
    and "cv_recorder canvas = Some r" and "DVZ_MAX_FRAMES_IN_FLIGHT E \<noteq> 0"
    and "DVZ_MAX_TIMESTAMPS E \<noteq> 0"
    and "obj_status (swapchain (dvz_swapchain_acquire E canvas)) \<noteq> DVZ_OBJECT_STATUS_INVALID"
    and "obj_status (swapchain (dvz_swapchain_acquire E canvas)) \<noteq> DVZ_OBJECT_STATUS_NEED_RECREATE"
    and "guis prt wid = Some g"
    and "callbacks prt \<noteq> []"
  shows "\<exists>prt' pre.
           dvz_presenter_frame E prt wid =
             Inr (prt',
               pre
               @ [SubmitReset wid, SubmitCommands wid canvas_cmds,
                  GuiWindowBegin (gw_obj_id g) (img_idx (swapchain (dvz_swapchain_acquire E canvas)))]
               @ map (\<lambda>p. GuiCallbackCall (pl_callback p) (gw_obj_id g) (pl_user_data p))
                   (filter (\<lambda>p. pl_window_id p = gw_obj_id g) (callbacks prt))
               @ [GuiWindowEnd (gw_obj_id g) (img_idx (swapchain (dvz_swapchain_acquire E canvas))),
                  SubmitCommands wid gui_window_cmds,
                  SubmitWaitSemaphores wid sem_img_available (cur_frame canvas),
                  SubmitSignalSemaphores wid sem_render_finished (cur_frame canvas),
                  SubmitSend wid (img_idx (swapchain (dvz_swapchain_acquire E canvas)))
                    fences_render_finished (cur_frame canvas),
                  SwapchainPresent wid sem_render_finished (cur_frame canvas),
                  TransfersFrame (img_idx (swapchain (dvz_swapchain_acquire E canvas)))])
           \<and> overlay_passes pre = []"
proof -
  let ?img = "img_idx (swapchain (dvz_swapchain_acquire E canvas))"
  let ?pre = "[FencesWait wid fences_render_finished
             ((cur_frame canvas + 1) mod DVZ_MAX_FRAMES_IN_FLIGHT E),
           SwapchainAcquire wid sem_img_available (cur_frame canvas),
           Time wid (frame_time_idx canvas mod DVZ_MAX_TIMESTAMPS E),
           FencesCopy wid fences_render_finished (cur_frame canvas) fences_flight ?img]
          @ (if rec_dirty r ?img then refill_calls wid r ?img else [])"
  have pre: "overlay_passes ?pre = []"
    by (simp add: trace_simps refill_calls_def)
  have calls: "callback_calls g ps =
      map (\<lambda>p. GuiCallbackCall (pl_callback p) (gw_obj_id g) (pl_user_data p))
        (filter (\<lambda>p. pl_window_id p = gw_obj_id g) ps)" for ps
    by (induction ps) (simp_all add: callback_calls_def)
  have "\<exists>prt'. dvz_presenter_frame E prt wid =
     Inr (prt',
          ?pre @ [SubmitReset wid, SubmitCommands wid canvas_cmds,
                  GuiWindowBegin (gw_obj_id g) ?img]
          @ map (\<lambda>p. GuiCallbackCall (pl_callback p) (gw_obj_id g) (pl_user_data p))
              (filter (\<lambda>p. pl_window_id p = gw_obj_id g) (callbacks prt))
          @ [GuiWindowEnd (gw_obj_id g) ?img, SubmitCommands wid gui_window_cmds,
             SubmitWaitSemaphores wid sem_img_available (cur_frame canvas),
             SubmitSignalSemaphores wid sem_render_finished (cur_frame canvas),
             SubmitSend wid ?img fences_render_finished (cur_frame canvas),
             SwapchainPresent wid sem_render_finished (cur_frame canvas),
             TransfersFrame ?img])"
    unfolding frame_ready [OF assms(1-7)] using assms(8,9)
    by (simp add: gui_callback_def calls)
  with pre show ?thesis by blast
qed

theorem overlay_pass_follows_global_list_witness:
  "windows (example_prt (DVZ_OBJECT_STATUS_OTHER 0) 2
       [\<lparr>pl_window_id = 2, pl_callback = user_callback 20, pl_user_data = ptr_user 200\<rparr>]) 1
     = Some example_window
   \<and> canvases (example_prt (DVZ_OBJECT_STATUS_OTHER 0) 2
       [\<lparr>pl_window_id = 2, pl_callback = user_callback 20, pl_user_data = ptr_user 200\<rparr>]) 1
     = Some (example_canvas (DVZ_OBJECT_STATUS_OTHER 0) 2)
   \<and> cv_recorder (example_canvas (DVZ_OBJECT_STATUS_OTHER 0) 2) = Some (example_recorder 2)
   \<and> DVZ_MAX_FRAMES_IN_FLIGHT example_env \<noteq> 0
   \<and> DVZ_MAX_TIMESTAMPS example_env \<noteq> 0
   \<and> obj_status (swapchain (dvz_swapchain_acquire example_env
         (example_canvas (DVZ_OBJECT_STATUS_OTHER 0) 2))) = DVZ_OBJECT_STATUS_OTHER 0
   \<and> guis (example_prt (DVZ_OBJECT_STATUS_OTHER 0) 2
       [\<lparr>pl_window_id = 2, pl_callback = user_callback 20, pl_user_data = ptr_user 200\<rparr>]) 1
     = Some \<lparr>gw_obj_id = 1\<rparr>
   \<and> callbacks (example_prt (DVZ_OBJECT_STATUS_OTHER 0) 2
       [\<lparr>pl_window_id = 2, pl_callback = user_callback 20, pl_user_data = ptr_user 200\<rparr>])
     = [\<lparr>pl_window_id = 2, pl_callback = user_callback 20, pl_user_data = ptr_user 200\<rparr>]
   \<and> (\<exists>prt' pre.
         dvz_presenter_frame example_env (example_prt (DVZ_OBJECT_STATUS_OTHER 0) 2
           [\<lparr>pl_window_id = 2, pl_callback = user_callback 20, pl_user_data = ptr_user 200\<rparr>]) 1
           = Inr (prt',
               pre
               @ [SubmitReset 1, SubmitCommands 1 canvas_cmds,
                  GuiWindowBegin 1 1, GuiWindowEnd 1 1, SubmitCommands 1 gui_window_cmds,
                  SubmitWaitSemaphores 1 sem_img_available 0,
                  SubmitSignalSemaphores 1 sem_render_finished 0,
                  SubmitSend 1 1 fences_render_finished 0,
                  SwapchainPresent 1 sem_render_finished 0,
                  TransfersFrame 1])
         \<and> overlay_passes pre = [])"
proof -
  let ?cbs = "[\<lparr>pl_window_id = 2, pl_callback = user_callback 20, pl_user_data = ptr_user 200\<rparr>]"
  let ?P = "example_prt (DVZ_OBJECT_STATUS_OTHER 0) 2 ?cbs"
  let ?C = "example_canvas (DVZ_OBJECT_STATUS_OTHER 0) 2"
  have h1: "windows ?P 1 = Some example_window" and h2: "canvases ?P 1 = Some ?C"
    and h3: "cv_recorder ?C = Some (example_recorder 2)"
    and h8: "guis ?P 1 = Some \<lparr>gw_obj_id = 1\<rparr>"
    and cb: "callbacks ?P = ?cbs"
    by (simp_all add: example_prt_def example_canvas_def)
  have h9: "callbacks ?P \<noteq> []" by (simp add: cb)
  have h4: "DVZ_MAX_FRAMES_IN_FLIGHT example_env \<noteq> 0"
    and h5: "DVZ_MAX_TIMESTAMPS example_env \<noteq> 0"
    by (simp_all add: example_env_def)
  have st: "obj_status (swapchain (dvz_swapchain_acquire example_env ?C))
              = DVZ_OBJECT_STATUS_OTHER 0"
    by (simp add: example_defs)
  have h6: "obj_status (swapchain (dvz_swapchain_acquire example_env ?C))
              \<noteq> DVZ_OBJECT_STATUS_INVALID"
    and h7: "obj_status (swapchain (dvz_swapchain_acquire example_env ?C))
              \<noteq> DVZ_OBJECT_STATUS_NEED_RECREATE"
    by (simp_all add: st)
  have v: "img_idx (swapchain (dvz_swapchain_acquire example_env ?C)) = 1"
    "cur_frame ?C = 0"
    by (simp_all add: example_defs)
  from overlay_pass_follows_global_list [OF h1 h2 h3 h4 h5 h6 h7 h8 h9]
  have concl: "\<exists>prt' pre.
         dvz_presenter_frame example_env ?P 1
           = Inr (prt',
               pre
               @ [SubmitReset 1, SubmitCommands 1 canvas_cmds,
                  GuiWindowBegin 1 1, GuiWindowEnd 1 1, SubmitCommands 1 gui_window_cmds,
                  SubmitWaitSemaphores 1 sem_img_available 0,
                  SubmitSignalSemaphores 1 sem_render_finished 0,
                  SubmitSend 1 1 fences_render_finished 0,
                  SwapchainPresent 1 sem_render_finished 0,
                  TransfersFrame 1])
         \<and> overlay_passes pre = []"
    unfolding v cb by simp
  show ?thesis
    using h1 h2 h3 h4 h5 st h8 cb concl by blast
qed

subsection \<open>C10: submitting an empty batch\<close>

text \<open>
  C10: \<^verbatim>\<open>dvz_presenter_submit\<close> on a batch of zero requests is a no-op. It makes no
  call at all (no event goes to the client, no request reaches the renderer, the batch
  is not destroyed) and the presenter is returned as it was.
\<close>

theorem submit_empty_batch_is_noop:
  "dvz_presenter_submit E prt [] = Inr (prt, [])"
  by (simp add: dvz_presenter_submit_def)

end
